theory Spec2Isabelle
  imports Main "HOL-Library.Sublist"
begin

section \<open>JavaScript values and strings\<close>

text \<open>
  The gateway handles decoded JSON payloads. A payload is a \<open>json\<close> value; an
  absent property (JavaScript's \<open>undefined\<close>) is \<open>None\<close> of \<open>json option\<close>.
  Strings are lists of 8-bit characters: the only case mapping and the only white space
  that the embedding knows are the ASCII ones, and numbers are integers (the handlers
  compare a number with 500 and nothing else).
\<close>

datatype json =
    JNull
  | JBool bool
  | JNum int
  | JStr string
  | JArr "json list"
  | JObj "(string \<times> json) list"

text \<open>Property access \<open>v.k\<close>: only objects carry the properties the handlers read.\<close>

fun get_prop :: "json \<Rightarrow> string \<Rightarrow> json option" where
  "get_prop (JObj kvs) k = map_of kvs k"
| "get_prop _ k = None"

text \<open>JavaScript truthiness, for \<open>if (v)\<close>, \<open>a && b\<close> and \<open>a || b\<close>.\<close>

fun truthy :: "json \<Rightarrow> bool" where
  "truthy JNull = False"
| "truthy (JBool b) = b"
| "truthy (JNum n) = (n \<noteq> 0)"
| "truthy (JStr s) = (s \<noteq> [])"
| "truthy (JArr xs) = True"
| "truthy (JObj kvs) = True"

definition truthy_opt :: "json option \<Rightarrow> bool" where
  "truthy_opt v = (case v of None \<Rightarrow> False | Some j \<Rightarrow> truthy j)"

definition lower_char :: "char \<Rightarrow> char" where
  "lower_char c =
     (let n = (of_char c :: nat) in if 65 \<le> n \<and> n \<le> 90 then char_of (n + 32) else c)"

definition toLowerCase :: "string \<Rightarrow> string" where
  "toLowerCase s = map lower_char s"

text \<open>\<open>s.includes(t)\<close>: \<open>t\<close> occurs in \<open>s\<close> as a contiguous run.\<close>

fun includes_js :: "string \<Rightarrow> string \<Rightarrow> bool" where
  "includes_js [] t = (t = [])"
| "includes_js (c # cs) t = (prefix t (c # cs) \<or> includes_js cs t)"

definition startsWith :: "string \<Rightarrow> string \<Rightarrow> bool" where
  "startsWith s t = prefix t s"

definition is_space :: "char \<Rightarrow> bool" where
  "is_space c = (c \<in> set [CHR 0x09, CHR 0x0A, CHR 0x0B, CHR 0x0C, CHR 0x0D, CHR 0x20])"

definition trim :: "string \<Rightarrow> string" where
  "trim s = rev (dropWhile is_space (rev (dropWhile is_space s)))"

subsection \<open>Conversion to text\<close>

fun digits :: "nat \<Rightarrow> string" where
  "digits n =
     (if n < 10 then [char_of (48 + n)] else digits (n div 10) @ [char_of (48 + n mod 10)])"

declare digits.simps [simp del]

definition show_int :: "int \<Rightarrow> string" where
  "show_int i = (if i < 0 then CHR ''-'' # digits (nat (- i)) else digits (nat i))"

fun intercalate :: "string \<Rightarrow> string list \<Rightarrow> string" where
  "intercalate sep [] = []"
| "intercalate sep [x] = x"
| "intercalate sep (x # y # ys) = x @ sep @ intercalate sep (y # ys)"

text \<open>
  \<open>String(v)\<close>, which a template literal \<open>`${v}`\<close> applies: \<open>undefined\<close> and \<open>null\<close>
  by name, an array as its elements joined by commas (\<open>null\<close> elements empty), any
  object as \<open>[object Object]\<close>.
\<close>

fun js_String :: "json \<Rightarrow> string" where
  "js_String JNull = ''null''"
| "js_String (JBool b) = (if b then ''true'' else ''false'')"
| "js_String (JNum n) = show_int n"
| "js_String (JStr s) = s"
| "js_String (JArr xs) =
     intercalate '','' (map (\<lambda>x. if x = JNull then [] else js_String x) xs)"
| "js_String (JObj kvs) = ''[object Object]''"

definition template :: "json option \<Rightarrow> string" where
  "template v = (case v of None \<Rightarrow> ''undefined'' | Some j \<Rightarrow> js_String j)"

definition hex_digit :: "nat \<Rightarrow> char" where
  "hex_digit n = (if n < 10 then char_of (48 + n) else char_of (87 + n))"

text \<open>The escapes of \<open>JSON.stringify\<close> inside a quoted string.\<close>

definition escape_char :: "char \<Rightarrow> string" where
  "escape_char c =
     (let n = (of_char c :: nat) in
      if n = 34 then [CHR 0x5C, CHR 0x22]
      else if n = 92 then [CHR 0x5C, CHR 0x5C]
      else if n = 8 then [CHR 0x5C, CHR ''b'']
      else if n = 9 then [CHR 0x5C, CHR ''t'']
      else if n = 10 then [CHR 0x5C, CHR ''n'']
      else if n = 12 then [CHR 0x5C, CHR ''f'']
      else if n = 13 then [CHR 0x5C, CHR ''r'']
      else if n < 32 then
        [CHR 0x5C, CHR ''u'', CHR ''0'', CHR ''0'', hex_digit (n div 16), hex_digit (n mod 16)]
      else [c])"

definition quote :: "string \<Rightarrow> string" where
  "quote s = CHR 0x22 # concat (map escape_char s) @ [CHR 0x22]"

text \<open>
  \<open>JSON.stringify(v, null, 2)\<close>: two more spaces of indentation at each level, an
  empty array as \<open>[]\<close> and an empty object as \<open>{}\<close>. The first argument of
  \<open>stringify_at\<close> is the indentation of the enclosing level.
\<close>

fun stringify_at :: "nat \<Rightarrow> json \<Rightarrow> string" where
  "stringify_at ind JNull = ''null''"
| "stringify_at ind (JBool b) = (if b then ''true'' else ''false'')"
| "stringify_at ind (JNum n) = show_int n"
| "stringify_at ind (JStr s) = quote s"
| "stringify_at ind (JArr xs) =
     (if xs = [] then ''[]''
      else ''['' @ [CHR 0x0A] @ replicate (ind + 2) CHR '' ''
        @ intercalate ('','' @ [CHR 0x0A] @ replicate (ind + 2) CHR '' '')
            (map (stringify_at (ind + 2)) xs)
        @ [CHR 0x0A] @ replicate ind CHR '' '' @ '']'')"
| "stringify_at ind (JObj kvs) =
     (if kvs = [] then ''{}''
      else ''{'' @ [CHR 0x0A] @ replicate (ind + 2) CHR '' ''
        @ intercalate ('','' @ [CHR 0x0A] @ replicate (ind + 2) CHR '' '')
            (map (\<lambda>kv. quote (fst kv) @ '': '' @ stringify_at (ind + 2) (snd kv)) kvs)
        @ [CHR 0x0A] @ replicate ind CHR '' '' @ ''}'')"

definition stringify :: "json \<Rightarrow> string" where
  "stringify v = stringify_at 0 v"


section \<open>Requests, errors and the process state\<close>

text \<open>
  An outbound request as the handlers build it: the options object of \<open>axios\<close> (or
  the URL and options of \<open>fetch\<close>). \<open>req_timeout\<close> is the \<open>timeout\<close> option in
  milliseconds, \<open>None\<close> when the options carry none.
\<close>

record request =
  req_method :: string
  req_url :: string
  req_data :: "json option"
  req_headers :: "(string \<times> string) list"
  req_timeout :: "nat option"

text \<open>
  What a \<open>catch\<close> block sees: \<open>error.message\<close> and, when the backend answered,
  \<open>error.response\<close> with its \<open>status\<close> and \<open>data\<close>.
\<close>

record js_error =
  err_message :: string
  err_response :: "(nat \<times> json) option"

text \<open>
  The backend and the transport are the environment. \<open>axios\<close> resolves with the
  decoded payload (\<open>response.data\<close>) or rejects with an error; \<open>fetch\<close> resolves with
  a status and a body text or rejects. The answer may depend on how many requests the
  process has sent before and on the request itself.
\<close>

type_synonym network = "nat \<Rightarrow> request \<Rightarrow> js_error + json"

type_synonym fetch_network = "nat \<Rightarrow> request \<Rightarrow> js_error + (nat \<times> string)"

record serverConfig =
  GO_SERVER_URL :: string
  MCP_SECRET_TOKEN :: "string option"

text \<open>
  The process state: the module variable \<open>OAUTH_TOKEN\<close> (\<open>None\<close> is \<open>null\<close>), and,
  to count effects, every request sent and every delay slept, oldest first.
\<close>

record state =
  OAUTH_TOKEN :: "string option"
  requests :: "request list"
  sleeps :: "nat list"

definition log_request :: "request \<Rightarrow> state \<Rightarrow> state" where
  "log_request r st = st\<lparr>requests := requests st @ [r]\<rparr>"

definition axios :: "network \<Rightarrow> request \<Rightarrow> state \<Rightarrow> (js_error + json) \<times> state" where
  "axios net options st = (net (length (requests st)) options, log_request options st)"

definition fetch :: "fetch_network \<Rightarrow> request \<Rightarrow> state \<Rightarrow> (js_error + nat \<times> string) \<times> state" where
  "fetch fnet options st = (fnet (length (requests st)) options, log_request options st)"

definition delay :: "nat \<Rightarrow> state \<Rightarrow> state" where
  "delay ms st = st\<lparr>sleeps := sleeps st @ [ms]\<rparr>"

section \<open>Credential store\<close>

definition setToken :: "string \<Rightarrow> state \<Rightarrow> state" where
  "setToken token st = st\<lparr>OAUTH_TOKEN := Some token\<rparr>"

definition clearToken :: "state \<Rightarrow> state" where
  "clearToken st = st\<lparr>OAUTH_TOKEN := None\<rparr>"

text \<open>The test \<open>if (OAUTH_TOKEN)\<close>: \<open>null\<close> and the empty string are falsy.\<close>

definition hasToken :: "state \<Rightarrow> bool" where
  "hasToken st = (case OAUTH_TOKEN st of None \<Rightarrow> False | Some t \<Rightarrow> t \<noteq> [])"

definition getAuthHeader :: "state \<Rightarrow> (string \<times> string) list" where
  "getAuthHeader st =
     (case OAUTH_TOKEN st of
        None \<Rightarrow> []
      | Some t \<Rightarrow> if t \<noteq> [] then [(''Authorization'', ''Bearer '' @ t)] else [])"

definition AUTH_LOGIN_URL :: "serverConfig \<Rightarrow> string" where
  "AUTH_LOGIN_URL cfg = GO_SERVER_URL cfg @ ''/auth/login''"

text \<open>Object spread \<open>{...a, ...b}\<close> on header objects: an entry of \<open>b\<close> replaces
  the entry of \<open>a\<close> with the same key.\<close>

definition spread :: "(string \<times> string) list \<Rightarrow> (string \<times> string) list \<Rightarrow> (string \<times> string) list" where
  "spread a b = filter (\<lambda>kv. fst kv \<notin> set (map fst b)) a @ b"

section \<open>Protected call executors\<close>

definition no_token_message :: "serverConfig \<Rightarrow> string" where
  "no_token_message cfg =
     ''No token found. Please get your token from: '' @ AUTH_LOGIN_URL cfg
       @ '' and try your request again with the token.''"

definition token_expired_message :: "serverConfig \<Rightarrow> string" where
  "token_expired_message cfg =
     ''Token expired or invalid. Please get a new token from: '' @ AUTH_LOGIN_URL cfg"

definition error_object :: "string \<Rightarrow> json" where
  "error_object msg = JObj [(''error'', JBool True), (''message'', JStr msg)]"

text \<open>The test \<open>error.response && (status === 401 || status === 403)\<close>.\<close>

definition auth_status :: "js_error \<Rightarrow> bool" where
  "auth_status e =
     (case err_response e of None \<Rightarrow> False | Some (status, d) \<Rightarrow> status = 401 \<or> status = 403)"

text \<open>
  The request that leaves \<open>protectedAxios\<close>:
  \<open>options.headers = { ...options.headers, ...getAuthHeader() }\<close>; and the one that
  leaves \<open>protectedFetch\<close>, to \<open>url\<close> and with the content type added last.
\<close>

definition with_auth :: "state \<Rightarrow> request \<Rightarrow> request" where
  "with_auth st options =
     options\<lparr>req_headers := spread (req_headers options) (getAuthHeader st)\<rparr>"

definition with_auth_json :: "state \<Rightarrow> string \<Rightarrow> request \<Rightarrow> request" where
  "with_auth_json st u fetchOptions =
     fetchOptions\<lparr>req_url := u,
       req_headers :=
         spread (spread (req_headers fetchOptions) (getAuthHeader st))
           [(''Content-Type'', ''application/json'')]\<rparr>"

text \<open>
  \<open>protectedAxios(options)\<close>. \<open>Inl\<close> is the error it rethrows, \<open>Inr\<close> the value it
  returns.
\<close>

definition protectedAxios ::
  "serverConfig \<Rightarrow> network \<Rightarrow> request \<Rightarrow> state \<Rightarrow> (js_error + json) \<times> state" where
  "protectedAxios cfg net options st =
     (if \<not> hasToken st then (Inr (error_object (no_token_message cfg)), st)
      else
        (case axios net (with_auth st options) st of
           (Inr d, st1) \<Rightarrow> (Inr d, st1)
         | (Inl error, st1) \<Rightarrow>
             if auth_status error
             then (Inr (error_object (token_expired_message cfg)), clearToken st1)
             else (Inl error, st1)))"

text \<open>
  \<open>protectedFetch(url, fetchOptions)\<close>. \<open>JSON.parse\<close> is the parameter \<open>parse\<close>:
  \<open>Inl\<close> is the SyntaxError it throws on a body that is not JSON.
\<close>

definition protectedFetch ::
  "serverConfig \<Rightarrow> fetch_network \<Rightarrow> (string \<Rightarrow> js_error + json) \<Rightarrow> string \<Rightarrow> request \<Rightarrow> state
     \<Rightarrow> (js_error + json) \<times> state" where
  "protectedFetch cfg fnet parse u fetchOptions st =
     (if \<not> hasToken st then (Inr (error_object (no_token_message cfg)), st)
      else
        (case fetch fnet (with_auth_json st u fetchOptions) st of
           (Inl error, st1) \<Rightarrow> (Inl error, st1)
         | (Inr (status, body), st1) \<Rightarrow>
             if status = 401 \<or> status = 403
             then (Inr (error_object (token_expired_message cfg)), clearToken st1)
             else (parse body, st1)))"

section \<open>Repository identifier normalizer\<close>

text \<open>
  The handlers repeat the same two lines wherever they index:
  \<open>if (!repoUrl.startsWith('http')) repoUrl = `https://github.com/${repoUrl}`\<close>.
\<close>

definition toFullUrl :: "string \<Rightarrow> string" where
  "toFullUrl r = (if \<not> startsWith r ''http'' then ''https://github.com/'' @ r else r)"


section \<open>Tool results\<close>

text \<open>
  The envelope \<open>{ content: [{ type, text }], isError }\<close> a tool handler returns; an
  absent \<open>isError\<close> is \<open>False\<close>.
\<close>

record content_item =
  item_type :: string
  item_text :: string

record envelope =
  content :: "content_item list"
  isError :: bool

definition text_result :: "string \<Rightarrow> envelope" where
  "text_result t = \<lparr>content = [\<lparr>item_type = ''text'', item_text = t\<rparr>], isError = False\<rparr>"

definition error_result :: "string \<Rightarrow> envelope" where
  "error_result t = \<lparr>content = [\<lparr>item_type = ''text'', item_text = t\<rparr>], isError = True\<rparr>"

definition status_error :: "string \<Rightarrow> json" where
  "status_error msg = JObj [(''status'', JStr ''error''), (''message'', JStr msg)]"

text \<open>
  Calling \<open>toLowerCase\<close> on a value that is not a string throws a TypeError: an
  error with no \<open>response\<close>. Its wording is the engine's, not the source's.
\<close>

definition TypeError_toLowerCase :: js_error where
  "TypeError_toLowerCase =
     \<lparr>err_message = ''toLowerCase is not a function'', err_response = None\<rparr>"

section \<open>Single-shot orchestrator (integration.js: vectorSearch and chat)\<close>

definition search_request :: "serverConfig \<Rightarrow> string \<Rightarrow> string \<Rightarrow> int \<Rightarrow> request" where
  "search_request cfg query repository limit =
     \<lparr>req_method = ''POST'', req_url = GO_SERVER_URL cfg @ ''/search'',
      req_data = Some (JObj [(''query'', JStr query), (''repository'', JStr repository),
                             (''limit'', JNum limit)]),
      req_headers = [], req_timeout = None\<rparr>"

definition index_request :: "serverConfig \<Rightarrow> string \<Rightarrow> request" where
  "index_request cfg repoUrl =
     \<lparr>req_method = ''POST'', req_url = GO_SERVER_URL cfg @ ''/index'',
      req_data = Some (JObj [(''repo_url'', JStr repoUrl)]),
      req_headers = [], req_timeout = None\<rparr>"

text \<open>
  The condition under the comment ``If repository not found or not indexed,
  automatically trigger indexing'':
  \<open>result && (result.error || result.status === 'error' || result.status_code === 500
     || (result.message && result.message.toLowerCase().includes('not found')))\<close>,
  evaluated left to right. \<open>Inl\<close> is the TypeError of a truthy message that is not a
  string.
\<close>

definition not_found_or_error :: "json \<Rightarrow> js_error + bool" where
  "not_found_or_error result =
     (if \<not> truthy result then Inr False
      else if truthy_opt (get_prop result ''error'') then Inr True
      else if get_prop result ''status'' = Some (JStr ''error'') then Inr True
      else if get_prop result ''status_code'' = Some (JNum 500) then Inr True
      else
        (case get_prop result ''message'' of
           None \<Rightarrow> Inr False
         | Some m \<Rightarrow>
             if \<not> truthy m then Inr False
             else
               (case m of
                  JStr s \<Rightarrow> Inr (includes_js (toLowerCase s) ''not found'')
                | _ \<Rightarrow> Inl TypeError_toLowerCase)))"

text \<open>\<open>indexResult && (indexResult.error || indexResult.status === 'error')\<close>\<close>

definition index_failed :: "json \<Rightarrow> bool" where
  "index_failed indexResult =
     (truthy indexResult \<and>
      (truthy_opt (get_prop indexResult ''error'') \<or>
       get_prop indexResult ''status'' = Some (JStr ''error'')))"

definition index_failed_message :: "string \<Rightarrow> json \<Rightarrow> string" where
  "index_failed_message repository indexResult =
     ''Repository '' @ [CHR 0x27] @ repository @ [CHR 0x27]
       @ '' not found or not indexed. Attempted to index but failed: ''
       @ template (get_prop indexResult ''message'')"

definition indexing_started_message :: "string \<Rightarrow> string" where
  "indexing_started_message repository =
     ''Repository '' @ [CHR 0x27] @ repository @ [CHR 0x27]
       @ '' not found or not indexed. Indexing has been started automatically.''
       @ '' Please try your request again after indexing is complete.''"

text \<open>
  The body both handlers share word for word (lines 262-302 of \<open>chat\<close> through
  \<open>processChatWithToken\<close>, lines 356-399 of \<open>vectorSearch\<close>): one protected search,
  the condition, one protected index call, no delay and no second search. \<open>Inl\<close> is an
  error thrown out of the body.
\<close>

definition search_then_index ::
  "serverConfig \<Rightarrow> network \<Rightarrow> request \<Rightarrow> string \<Rightarrow> state \<Rightarrow> (js_error + envelope) \<times> state" where
  "search_then_index cfg net search repository st =
     (case protectedAxios cfg net search st of
        (Inl error, st1) \<Rightarrow> (Inl error, st1)
      | (Inr result, st1) \<Rightarrow>
          (case not_found_or_error result of
             Inl error \<Rightarrow> (Inl error, st1)
           | Inr False \<Rightarrow> (Inr (text_result (stringify result)), st1)
           | Inr True \<Rightarrow>
               (case protectedAxios cfg net (index_request cfg (toFullUrl repository)) st1 of
                  (Inl error, st2) \<Rightarrow> (Inl error, st2)
                | (Inr indexResult, st2) \<Rightarrow>
                    if index_failed indexResult
                    then (Inr (text_result (index_failed_message repository indexResult)), st2)
                    else (Inr (text_result (indexing_started_message repository)), st2))))"

text \<open>
  The \<open>vectorSearch\<close> tool of integration.js; \<open>limit\<close> defaults to 5, \<open>repoUrl\<close> and
  \<open>branch\<close> are accepted and not used. The handler has no \<open>try\<close>: an error thrown
  inside leaves it (\<open>Inl\<close>).
\<close>

definition vectorSearch ::
  "serverConfig \<Rightarrow> network \<Rightarrow> string \<Rightarrow> string \<Rightarrow> int option \<Rightarrow> state
     \<Rightarrow> (js_error + envelope) \<times> state" where
  "vectorSearch cfg net query repository limit st =
     (if \<not> hasToken st then (Inr (text_result (no_token_message cfg)), st)
      else search_then_index cfg net
             (search_request cfg query repository (case limit of None \<Rightarrow> 5 | Some l \<Rightarrow> l))
             repository st)"

text \<open>
  The \<open>chat\<close> tool of integration.js: the two commands first, then the token check,
  then the protected search inside \<open>try\<close>, whose \<open>catch\<close> turns a thrown error into
  an error envelope.
\<close>

definition chat ::
  "serverConfig \<Rightarrow> network \<Rightarrow> string \<Rightarrow> string \<Rightarrow> state \<Rightarrow> (js_error + envelope) \<times> state" where
  "chat cfg net message repository st =
     (if startsWith (trim message) ''/set-token '' then
        (let token = trim (drop 11 (trim message)) in
         if token \<noteq> [] then (Inr (text_result ''Token set! You can now use the chat.''), setToken token st)
         else (Inr (text_result ''Please provide a token after /set-token.''), st))
      else if startsWith (trim message) ''/index-repo '' then
        (let repoUrl = trim (drop 11 (trim message)) in
         if repoUrl = [] then
           (Inr (text_result ''Please provide a repository URL after /index-repo.''), st)
         else
           (case protectedAxios cfg net (index_request cfg (toFullUrl repoUrl)) st of
              (Inl error, st1) \<Rightarrow> (Inl error, st1)
            | (Inr indexResult, st1) \<Rightarrow>
                if index_failed indexResult
                then (Inr (text_result (''Indexing failed: ''
                             @ template (get_prop indexResult ''message''))), st1)
                else (Inr (text_result (''Indexing started for '' @ toFullUrl repoUrl
                             @ ''. I will notify you when it'' @ [CHR 0x27] @ ''s ready.'')), st1)))
      else if \<not> hasToken st then (Inr (text_result (no_token_message cfg)), st)
      else
        (case search_then_index cfg net (search_request cfg message repository 5) repository st of
           (Inl error, st1) \<Rightarrow>
             (Inr (error_result
                (stringify (status_error (''Error processing chat: '' @ err_message error)))), st1)
         | (Inr r, st1) \<Rightarrow> (Inr r, st1)))"


section \<open>Polling orchestrator (integration.js: vectorSearchWithSummary)\<close>

text \<open>
  The summary search is sent by \<open>axios.post\<close> itself, with
  \<open>{ headers: getAuthHeader() }\<close> as its configuration, not by \<open>protectedAxios\<close>.
\<close>

definition summary_request ::
  "serverConfig \<Rightarrow> state \<Rightarrow> string \<Rightarrow> string \<Rightarrow> int \<Rightarrow> string \<Rightarrow> request" where
  "summary_request cfg st query repository limit branch =
     \<lparr>req_method = ''POST'', req_url = GO_SERVER_URL cfg @ ''/search/summary'',
      req_data = Some (JObj [(''query'', JStr query), (''repository'', JStr repository),
                             (''limit'', JNum limit), (''branch'', JStr branch)]),
      req_headers = getAuthHeader st, req_timeout = None\<rparr>"

text \<open>\<open>error.response && error.response.data ? error.response.data : null\<close>\<close>

definition responseData_of :: "js_error \<Rightarrow> json" where
  "responseData_of error =
     (case err_response error of
        None \<Rightarrow> JNull
      | Some (status, d) \<Rightarrow> if truthy d then d else JNull)"

text \<open>\<open>typeof v === 'object'\<close> for a truthy value: objects and arrays.\<close>

fun is_object :: "json \<Rightarrow> bool" where
  "is_object (JObj kvs) = True"
| "is_object (JArr xs) = True"
| "is_object _ = False"

text \<open>
  The flag \<open>notFound\<close> of the \<open>catch\<close> block: from \<open>responseData.message\<close> when
  the response data is an object, from \<open>error.message\<close> otherwise. \<open>Inl\<close> is the
  TypeError of \<open>(responseData.message || '').toLowerCase()\<close> on a truthy message
  that is not a string.
\<close>

definition notFound_of :: "js_error \<Rightarrow> js_error + bool" where
  "notFound_of error =
     (if truthy (responseData_of error) \<and> is_object (responseData_of error) then
        (case get_prop (responseData_of error) ''message'' of
           None \<Rightarrow> Inr False
         | Some m \<Rightarrow>
             if \<not> truthy m then Inr False
             else
               (case m of
                  JStr s \<Rightarrow>
                    Inr (includes_js (toLowerCase s) ''not found'' \<or>
                         includes_js (toLowerCase s) ''not indexed'')
                | _ \<Rightarrow> Inl TypeError_toLowerCase))
      else Inr (includes_js (toLowerCase (err_message error)) ''not found''))"

text \<open>\<open>error.response && (error.response.status === 404 || error.response.status === 500)\<close>\<close>

definition status_404_or_500 :: "js_error \<Rightarrow> bool" where
  "status_404_or_500 error =
     (case err_response error of None \<Rightarrow> False | Some (status, d) \<Rightarrow> status = 404 \<or> status = 500)"

text \<open>
  The class NotIndexed of the polling configuration: the \<open>catch\<close> block reaches its
  test \<open>notFound || (error.response && (status === 404 || status === 500))\<close> and the
  test is true.
\<close>

definition classified_NotIndexed :: "js_error \<Rightarrow> bool" where
  "classified_NotIndexed error =
     (case notFound_of error of
        Inl thrown \<Rightarrow> False
      | Inr notFound \<Rightarrow> notFound \<or> status_404_or_500 error)"

text \<open>The text after the loop; \<open>String(null)\<close> when no error was ever caught.\<close>

definition retries_failed_message :: "string \<Rightarrow> js_error option \<Rightarrow> string" where
  "retries_failed_message repository lastError =
     ''Repository '' @ [CHR 0x27] @ repository @ [CHR 0x27]
       @ '' not found or not indexed after multiple attempts. Please try again later. Last error: ''
       @ (case lastError of None \<Rightarrow> ''null'' | Some e \<Rightarrow> err_message e)"

text \<open>
  The \<open>for\<close> loop with its variables \<open>attempt\<close>, \<open>indexed\<close> and \<open>lastError\<close>;
  \<open>break\<close> and the end of the loop both reach the text after it.
\<close>

function summary_loop ::
  "serverConfig \<Rightarrow> network \<Rightarrow> string \<Rightarrow> string \<Rightarrow> int \<Rightarrow> string \<Rightarrow> nat \<Rightarrow> bool \<Rightarrow> js_error option
     \<Rightarrow> state \<Rightarrow> (js_error + envelope) \<times> state" where
  "summary_loop cfg net query repository limit branch attempt indexed lastError st =
     (if attempt < 6 then
        (case axios net (summary_request cfg st query repository limit branch) st of
           (Inr d, st1) \<Rightarrow> (Inr (text_result (stringify d)), st1)
         | (Inl error, st1) \<Rightarrow>
             (case notFound_of error of
                Inl thrown \<Rightarrow> (Inl thrown, st1)
              | Inr notFound \<Rightarrow>
                  if notFound \<or> status_404_or_500 error then
                    if \<not> indexed then
                      (case protectedAxios cfg net (index_request cfg (toFullUrl repository)) st1 of
                         (Inl thrown, st2) \<Rightarrow> (Inl thrown, st2)
                       | (Inr indexResult, st2) \<Rightarrow>
                           if index_failed indexResult
                           then (Inr (text_result (index_failed_message repository indexResult)), st2)
                           else summary_loop cfg net query repository limit branch (attempt + 1)
                                  True (Some error) (delay 10000 st2))
                    else if attempt < 5 then
                      summary_loop cfg net query repository limit branch (attempt + 1)
                        indexed (Some error) (delay 10000 st1)
                    else (Inr (text_result (retries_failed_message repository (Some error))), st1)
                  else (Inr (text_result (retries_failed_message repository (Some error))), st1)))
      else (Inr (text_result (retries_failed_message repository lastError)), st))"
  by pat_completeness auto
termination
  by (relation "measure (\<lambda>(cfg, net, query, repository, limit, branch, attempt, indexed, lastError, st).
        6 - attempt)") auto

declare summary_loop.simps [simp del]

definition vectorSearchWithSummary ::
  "serverConfig \<Rightarrow> network \<Rightarrow> string \<Rightarrow> string \<Rightarrow> int option \<Rightarrow> string option \<Rightarrow> state
     \<Rightarrow> (js_error + envelope) \<times> state" where
  "vectorSearchWithSummary cfg net query repository limit branch st =
     (if \<not> hasToken st then (Inr (text_result (no_token_message cfg)), st)
      else summary_loop cfg net query repository
             (case limit of None \<Rightarrow> 5 | Some l \<Rightarrow> l)
             (case branch of None \<Rightarrow> ''main'' | Some b \<Rightarrow> b) 0 False None st)"

section \<open>The Replit variant (the second server file)\<close>

text \<open>
  Its \<open>axiosConfig\<close> is \<open>{ timeout: 30000, headers: {} }\<close>, with the
  \<open>X-MCP-Token\<close> header added when the secret is set; every \<open>axios\<close> call of the
  file passes it.
\<close>

definition axiosConfig_headers :: "serverConfig \<Rightarrow> (string \<times> string) list" where
  "axiosConfig_headers cfg =
     (case MCP_SECRET_TOKEN cfg of
        None \<Rightarrow> []
      | Some t \<Rightarrow> if t \<noteq> [] then [(''X-MCP-Token'', t)] else [])"

definition replit_request :: "serverConfig \<Rightarrow> string \<Rightarrow> string \<Rightarrow> json option \<Rightarrow> request" where
  "replit_request cfg m path body =
     \<lparr>req_method = m, req_url = GO_SERVER_URL cfg @ path, req_data = body,
      req_headers = axiosConfig_headers cfg, req_timeout = Some 30000\<rparr>"

definition hasResults :: "envelope \<Rightarrow> bool" where
  "hasResults result =
     (\<not> isError result \<and>
      list_ex (\<lambda>item. item_type item = ''text'' \<and> item_text item \<noteq> []
                 \<and> \<not> includes_js (item_text item) ''error''
                 \<and> item_text item \<noteq> ''{}'' \<and> item_text item \<noteq> ''[]'')
        (content result))"

definition vector_search_request :: "serverConfig \<Rightarrow> string \<Rightarrow> string \<Rightarrow> int \<Rightarrow> request" where
  "vector_search_request cfg query repository limit =
     replit_request cfg ''POST'' ''/vector-search''
       (Some (JObj [(''query'', JStr query), (''repository'', JStr repository),
                    (''limit'', JNum limit)]))"

text \<open>One of the two identical attempts of the Replit \<open>vectorSearch\<close>.\<close>

definition search_attempt ::
  "serverConfig \<Rightarrow> network \<Rightarrow> string \<Rightarrow> string \<Rightarrow> int \<Rightarrow> state \<Rightarrow> envelope \<times> state" where
  "search_attempt cfg net query repository limit st =
     (case axios net (vector_search_request cfg query repository limit) st of
        (Inr d, st1) \<Rightarrow> (text_result (stringify d), st1)
      | (Inl error, st1) \<Rightarrow>
          (error_result (stringify (status_error (''Search failed: '' @ err_message error))), st1))"

definition indexRepository_replit ::
  "serverConfig \<Rightarrow> network \<Rightarrow> string \<Rightarrow> string option \<Rightarrow> state \<Rightarrow> envelope \<times> state" where
  "indexRepository_replit cfg net repoUrl branch st =
     (case axios net
             (replit_request cfg ''POST'' ''/index-repository''
                (Some (JObj [(''repoUrl'', JStr repoUrl),
                             (''branch'', JStr (case branch of None \<Rightarrow> ''main'' | Some b \<Rightarrow> b))]))) st of
        (Inr d, st1) \<Rightarrow> (text_result (stringify d), st1)
      | (Inl error, st1) \<Rightarrow>
          (error_result
             (stringify (status_error (''Repository indexing failed: '' @ err_message error))), st1))"

text \<open>
  The Replit \<open>vectorSearch\<close>: a second attempt when the first has no results, then,
  when \<open>repoUrl\<close> is given, \<open>await server.tools.indexRepository({ repoUrl, branch })\<close>.
  The file never assigns \<open>server.tools\<close> and the server object it creates has no
  such member, so reading \<open>indexRepository\<close> of it throws a TypeError (wording the
  engine's) before any request is sent; the handler has no \<open>try\<close> around it, and the
  error leaves the handler (\<open>Inl\<close>). Without \<open>repoUrl\<close> the second result is
  returned.
\<close>

definition TypeError_undefined :: js_error where
  "TypeError_undefined =
     \<lparr>err_message = ''Cannot read properties of undefined'', err_response = None\<rparr>"

definition vectorSearch_replit ::
  "serverConfig \<Rightarrow> network \<Rightarrow> string \<Rightarrow> string \<Rightarrow> int option \<Rightarrow> string option \<Rightarrow> string option
     \<Rightarrow> state \<Rightarrow> (js_error + envelope) \<times> state" where
  "vectorSearch_replit cfg net query repository limit repoUrl branch st =
     (let l = (case limit of None \<Rightarrow> 5 | Some l \<Rightarrow> l);
          (result1, st1) = search_attempt cfg net query repository l st
      in if hasResults result1 then (Inr result1, st1)
         else
           (let (result2, st2) = search_attempt cfg net query repository l st1
            in if hasResults result2 then (Inr result2, st2)
               else
                 (case repoUrl of
                    None \<Rightarrow> (Inr result2, st2)
                  | Some u \<Rightarrow>
                      if u \<noteq> [] then (Inl TypeError_undefined, st2)
                      else (Inr result2, st2))))"

text \<open>
  The Replit \<open>processChat\<close> and \<open>chat\<close>: a health check, then one search. \<open>now\<close>
  is \<open>new Date().toISOString()\<close>. The result is the fallback when
  \<open>!searchResults || (Array.isArray(searchResults) && searchResults.length === 0)\<close>,
  an absent \<open>data\<close> being \<open>None\<close>. Reading \<open>.success\<close> of a \<open>null\<close> payload throws
  a TypeError (wording the engine's), which the outer \<open>catch\<close> receives like a failed
  request.
\<close>

definition fallback_message :: string where
  "fallback_message =
     ''Sorry, I couldn'' @ [CHR 0x27] @ ''t find a clear answer to your question in the ''
       @ ''repository documentation or code. Please try rephrasing your question or ''
       @ ''provide more details.''"

definition TypeError_null :: js_error where
  "TypeError_null =
     \<lparr>err_message = ''Cannot read properties of null'', err_response = None\<rparr>"

text \<open>\<open>searchResponse.data.success ? searchResponse.data.data : []\<close>\<close>

definition searchResults_of :: "json \<Rightarrow> js_error + json option" where
  "searchResults_of d =
     (if d = JNull then Inl TypeError_null
      else if truthy_opt (get_prop d ''success'') then Inr (get_prop d ''data'')
      else Inr (Some (JArr [])))"

definition processChat_replit ::
  "serverConfig \<Rightarrow> network \<Rightarrow> string \<Rightarrow> string \<Rightarrow> string \<Rightarrow> state \<Rightarrow> json \<times> state" where
  "processChat_replit cfg net now message repository st =
     (case axios net (replit_request cfg ''GET'' ''/health'' None) st of
        (Inl healthError, st1) \<Rightarrow>
          (JObj [(''message'', JStr (''The backend server is currently unavailable. Please ''
                    @ ''ensure the Go server is running and accessible.'')),
                 (''repository'', JStr repository), (''codeContext'', JArr []),
                 (''timestamp'', JStr now), (''error'', JStr ''backend_unavailable'')], st1)
      | (Inr health, st1) \<Rightarrow>
          (case axios net (vector_search_request cfg message repository 5) st1 of
             (Inl error, st2) \<Rightarrow>
               (JObj [(''message'', JStr fallback_message), (''repository'', JStr repository),
                      (''codeContext'', JArr []), (''timestamp'', JStr now),
                      (''error'', JStr (err_message error))], st2)
           | (Inr d, st2) \<Rightarrow>
               (case searchResults_of d of
                  Inl error \<Rightarrow>
                    (JObj [(''message'', JStr fallback_message), (''repository'', JStr repository),
                           (''codeContext'', JArr []), (''timestamp'', JStr now),
                           (''error'', JStr (err_message error))], st2)
                | Inr None \<Rightarrow>
                    (JObj [(''message'', JStr fallback_message), (''repository'', JStr repository),
                           (''codeContext'', JArr []), (''timestamp'', JStr now)], st2)
                | Inr (Some searchResults) \<Rightarrow>
                    if \<not> truthy searchResults \<or> searchResults = JArr [] then
                      (JObj [(''message'', JStr fallback_message), (''repository'', JStr repository),
                             (''codeContext'', JArr []), (''timestamp'', JStr now)], st2)
                    else
                      (JObj [(''message'', JStr (''I processed your message: '' @ [CHR 0x22]
                                @ message @ [CHR 0x22])),
                             (''repository'', JStr repository),
                             (''codeContext'', searchResults),
                             (''timestamp'', JStr now)], st2))))"

definition chat_replit ::
  "serverConfig \<Rightarrow> network \<Rightarrow> string \<Rightarrow> string \<Rightarrow> string \<Rightarrow> state \<Rightarrow> envelope \<times> state" where
  "chat_replit cfg net now message repository st =
     (let (result, st1) = processChat_replit cfg net now message repository st
      in (text_result (stringify result), st1))"

section \<open>Observing a run and its inputs\<close>

text \<open>
  What a handler did between the state it started in and the state it returns: the
  requests it sent and the delays it slept, read off the two logs. \<open>traced P Q\<close>
  says that both logs only grew, that every request sent satisfies \<open>P\<close> and every delay
  satisfies \<open>Q\<close>.
\<close>

definition sent_since :: "state \<Rightarrow> state \<Rightarrow> request list" where
  "sent_since st st' = drop (length (requests st)) (requests st')"

definition slept_since :: "state \<Rightarrow> state \<Rightarrow> nat list" where
  "slept_since st st' = drop (length (sleeps st)) (sleeps st')"

definition traced :: "(request \<Rightarrow> bool) \<Rightarrow> (nat \<Rightarrow> bool) \<Rightarrow> state \<Rightarrow> state \<Rightarrow> bool" where
  "traced P Q st st' =
     (prefix (requests st) (requests st') \<and> prefix (sleeps st) (sleeps st') \<and>
      list_all P (sent_since st st') \<and> list_all Q (slept_since st st'))"

text \<open>
  A \<open>message\<close> property that the handlers can test: absent, falsy, or a string whose
  lower-cased form contains none of the given phrases. (On a truthy message that is not
  a string the call of \<open>toLowerCase\<close> throws.)
\<close>

definition message_lacks :: "json option \<Rightarrow> string list \<Rightarrow> bool" where
  "message_lacks v phrases =
     (case v of
        None \<Rightarrow> True
      | Some m \<Rightarrow>
          \<not> truthy m \<or>
          (case m of
             JStr s \<Rightarrow> list_all (\<lambda>p. \<not> includes_js (toLowerCase s) p) phrases
           | _ \<Rightarrow> False))"

section \<open>Sample configurations for concrete runs\<close>

definition example_cfg :: serverConfig where
  "example_cfg = \<lparr>GO_SERVER_URL = ''http://localhost:8081'', MCP_SECRET_TOKEN = None\<rparr>"

definition signed_out :: state where
  "signed_out = \<lparr>OAUTH_TOKEN = None, requests = [], sleeps = []\<rparr>"

definition signed_in :: state where
  "signed_in = \<lparr>OAUTH_TOKEN = Some ''tok'', requests = [], sleeps = []\<rparr>"

definition example_options :: request where
  "example_options =
     \<lparr>req_method = ''POST'', req_url = ''http://localhost:8081/search'', req_data = None,
      req_headers = [], req_timeout = None\<rparr>"

definition http_error :: "nat \<Rightarrow> json \<Rightarrow> js_error" where
  "http_error status body =
     \<lparr>err_message = ''Request failed with status code '' @ digits status,
      err_response = Some (status, body)\<rparr>"


text \<open>A backend that rejects every request with one HTTP status and body.\<close>

definition backend_rejects :: "nat \<Rightarrow> json \<Rightarrow> network" where
  "backend_rejects status body n r = Inl (http_error status body)"

text \<open>A backend that answers every request with one payload.\<close>

definition backend_returns :: "json \<Rightarrow> network" where
  "backend_returns j n r = Inr j"

text \<open>A successful payload that carries zero results.\<close>

definition no_hits :: json where
  "no_hits = JObj [(''success'', JBool True), (''data'', JArr [])]"

text \<open>
  A backend on which the repository is never indexed: every search is answered 404,
  and the indexing endpoint answers with the given payload.
\<close>

definition not_found_body :: json where
  "not_found_body = JObj [(''message'', JStr ''Repository not found'')]"

definition unindexed_backend :: "json \<Rightarrow> network" where
  "unindexed_backend index_reply n r =
     (if req_url r = ''http://localhost:8081/index'' then Inr index_reply
      else Inl (http_error 404 not_found_body))"

definition index_accepted :: json where
  "index_accepted = JObj [(''status'', JStr ''indexing'')]"

text \<open>A request that fails before any response arrives.\<close>

definition timeout_error :: js_error where
  "timeout_error = \<lparr>err_message = ''timeout of 30000ms exceeded'', err_response = None\<rparr>"

definition backend_fails :: "js_error \<Rightarrow> network" where
  "backend_fails e n r = Inl e"

text \<open>Two bodies of a 400 response: a message that is a string, and one that is a number.\<close>

definition bad_request_body :: json where
  "bad_request_body = JObj [(''message'', JStr ''Bad request'')]"

definition numeric_message_body :: json where
  "numeric_message_body = JObj [(''message'', JNum 123)]"

section \<open>Facts about strings and the executors\<close>

lemma includes_js_iff: "includes_js s t \<longleftrightarrow> (\<exists>p q. s = p @ t @ q)"
proof (induction s)
  case Nil
  then show ?case by simp
next
  case (Cons c cs)
  show ?case
  proof
    assume "includes_js (c # cs) t"
    then consider "prefix t (c # cs)" | "includes_js cs t" by auto
    then show "\<exists>p q. c # cs = p @ t @ q"
    proof cases
      case 1
      then obtain q where "c # cs = t @ q" by (auto simp: prefix_def)
      then have "c # cs = [] @ t @ q" by simp
      then show ?thesis by blast
    next
      case 2
      with Cons.IH obtain p q where "cs = p @ t @ q" by auto
      then have "c # cs = (c # p) @ t @ q" by simp
      then show ?thesis by blast
    qed
  next
    assume "\<exists>p q. c # cs = p @ t @ q"
    then obtain p q where pq: "c # cs = p @ t @ q" by auto
    show "includes_js (c # cs) t"
    proof (cases p)
      case Nil
      with pq have "prefix t (c # cs)" by (simp add: prefix_def)
      then show ?thesis by simp
    next
      case (Cons a p')
      with pq have "cs = p' @ t @ q" by simp
      with Cons.IH have "includes_js cs t" by blast
      then show ?thesis by simp
    qed
  qed
qed

lemma includes_js_middle: "includes_js (a @ t @ b) t"
  by (auto simp: includes_js_iff)

lemma includes_js_end: "includes_js (a @ t) t"
  using includes_js_middle [of a t "[]"] by simp

lemma protectedAxios_no_token:
  "\<not> hasToken st \<Longrightarrow> protectedAxios cfg net options st = (Inr (error_object (no_token_message cfg)), st)"
  by (simp add: protectedAxios_def)

lemma protectedFetch_no_token:
  "\<not> hasToken st \<Longrightarrow>
   protectedFetch cfg fnet parse u fetchOptions st = (Inr (error_object (no_token_message cfg)), st)"
  by (simp add: protectedFetch_def)

lemma hasToken_clearToken: "\<not> hasToken (clearToken st)"
  by (simp add: hasToken_def clearToken_def)

lemma no_token_message_login_url:
  "includes_js (no_token_message cfg) (GO_SERVER_URL cfg @ ''/auth/login'')"
  unfolding no_token_message_def AUTH_LOGIN_URL_def by (rule includes_js_middle)

lemma token_expired_message_login_url:
  "includes_js (token_expired_message cfg) (GO_SERVER_URL cfg @ ''/auth/login'')"
  unfolding token_expired_message_def AUTH_LOGIN_URL_def by (rule includes_js_end)

lemma protectedAxios_auth_failure:
  assumes "hasToken st" and "net (length (requests st)) (with_auth st options) = Inl error"
    and "auth_status error"
  shows "protectedAxios cfg net options st
           = (Inr (error_object (token_expired_message cfg)),
              clearToken (log_request (with_auth st options) st))"
  using assms by (simp add: protectedAxios_def axios_def)

lemma protectedFetch_auth_failure:
  assumes "hasToken st"
    and "fnet (length (requests st)) (with_auth_json st u fetchOptions) = Inr (status, body)"
    and "status = 401 \<or> status = 403"
  shows "protectedFetch cfg fnet parse u fetchOptions st
           = (Inr (error_object (token_expired_message cfg)),
              clearToken (log_request (with_auth_json st u fetchOptions) st))"
  using assms by (auto simp add: protectedFetch_def fetch_def)

section \<open>The protected call executors\<close>

text \<open>
  C6: a protected call made while no credential is stored returns the no-credential
  result, whose message contains the login URL (the backend base URL followed by
  \<open>/auth/login\<close>), and sends no request: the state, with its log of requests, is
  returned as it was. This holds for \<open>protectedAxios\<close> and for \<open>protectedFetch\<close>.
\<close>

theorem no_credential_no_request:
  assumes "\<not> hasToken st"
  shows "protectedAxios cfg net options st = (Inr (error_object (no_token_message cfg)), st)
       \<and> protectedFetch cfg fnet parse u fetchOptions st
           = (Inr (error_object (no_token_message cfg)), st)
       \<and> requests (snd (protectedAxios cfg net options st)) = requests st
       \<and> requests (snd (protectedFetch cfg fnet parse u fetchOptions st)) = requests st
       \<and> get_prop (error_object (no_token_message cfg)) ''message''
           = Some (JStr (no_token_message cfg))
       \<and> includes_js (no_token_message cfg) (GO_SERVER_URL cfg @ ''/auth/login'')"
  using assms
  by (simp add: protectedAxios_no_token protectedFetch_no_token error_object_def
      no_token_message_login_url)


theorem no_credential_no_request_witness:
  "protectedAxios example_cfg (\<lambda>n r. Inr JNull) example_options signed_out
     = (Inr (error_object (no_token_message example_cfg)), signed_out)
   \<and> protectedFetch example_cfg (\<lambda>n r. Inr (200, ''{}'')) (\<lambda>body. Inr JNull)
       ''http://localhost:8081/search'' example_options signed_out
     = (Inr (error_object (no_token_message example_cfg)), signed_out)
   \<and> includes_js (no_token_message example_cfg) ''http://localhost:8081/auth/login''"
proof -
  have h: "\<not> hasToken signed_out"
    by (simp add: hasToken_def signed_out_def)
  show ?thesis
    using no_credential_no_request [OF h, of example_cfg] by (simp add: example_cfg_def)
qed

text \<open>
  C5: a protected call made while a credential is stored, to which the backend answers
  401 or 403, returns the auth-failure result, whose message contains the login URL, and
  leaves no credential behind: \<open>hasToken\<close> is false afterwards, so the next protected
  call, whatever it asks, takes the no-credential branch.
\<close>

theorem auth_failure_clears_credential:
  assumes "hasToken st" and "status = 401 \<or> status = 403"
  shows "(net (length (requests st)) (with_auth st options) = Inl error
            \<and> err_response error = Some (status, body) \<longrightarrow>
          fst (protectedAxios cfg net options st) = Inr (error_object (token_expired_message cfg))
          \<and> \<not> hasToken (snd (protectedAxios cfg net options st))
          \<and> protectedAxios cfg net' options' (snd (protectedAxios cfg net options st))
              = (Inr (error_object (no_token_message cfg)), snd (protectedAxios cfg net options st)))
       \<and> (fnet (length (requests st)) (with_auth_json st u fetchOptions) = Inr (status, reply) \<longrightarrow>
          fst (protectedFetch cfg fnet parse u fetchOptions st)
              = Inr (error_object (token_expired_message cfg))
          \<and> \<not> hasToken (snd (protectedFetch cfg fnet parse u fetchOptions st))
          \<and> protectedFetch cfg fnet' parse u' fetchOptions'
                (snd (protectedFetch cfg fnet parse u fetchOptions st))
              = (Inr (error_object (no_token_message cfg)),
                 snd (protectedFetch cfg fnet parse u fetchOptions st)))
       \<and> get_prop (error_object (token_expired_message cfg)) ''message''
           = Some (JStr (token_expired_message cfg))
       \<and> includes_js (token_expired_message cfg) (GO_SERVER_URL cfg @ ''/auth/login'')"
proof -
  have a: "fst (protectedAxios cfg net options st) = Inr (error_object (token_expired_message cfg))
          \<and> \<not> hasToken (snd (protectedAxios cfg net options st))
          \<and> protectedAxios cfg net' options' (snd (protectedAxios cfg net options st))
              = (Inr (error_object (no_token_message cfg)), snd (protectedAxios cfg net options st))"
    if "net (length (requests st)) (with_auth st options) = Inl error"
      and "err_response error = Some (status, body)"
  proof -
    from that assms(2) have "auth_status error" by (simp add: auth_status_def)
    with assms(1) that(1) show ?thesis
      by (simp add: protectedAxios_auth_failure protectedAxios_no_token hasToken_clearToken)
  qed
  have f: "fst (protectedFetch cfg fnet parse u fetchOptions st)
              = Inr (error_object (token_expired_message cfg))
          \<and> \<not> hasToken (snd (protectedFetch cfg fnet parse u fetchOptions st))
          \<and> protectedFetch cfg fnet' parse u' fetchOptions'
                (snd (protectedFetch cfg fnet parse u fetchOptions st))
              = (Inr (error_object (no_token_message cfg)),
                 snd (protectedFetch cfg fnet parse u fetchOptions st))"
    if "fnet (length (requests st)) (with_auth_json st u fetchOptions) = Inr (status, reply)"
    using assms that
    by (simp add: protectedFetch_auth_failure protectedFetch_no_token hasToken_clearToken)
  show ?thesis
    using a f by (simp add: error_object_def token_expired_message_login_url)
qed

theorem auth_failure_clears_credential_witness:
  "fst (protectedAxios example_cfg (\<lambda>n r. Inl (http_error 401 JNull)) example_options signed_in)
     = Inr (error_object (token_expired_message example_cfg))
   \<and> \<not> hasToken (snd (protectedAxios example_cfg (\<lambda>n r. Inl (http_error 401 JNull))
                        example_options signed_in))
   \<and> fst (protectedFetch example_cfg (\<lambda>n r. Inr (403, ''Forbidden'')) (\<lambda>body. Inr JNull)
            ''http://localhost:8081/search'' example_options signed_in)
     = Inr (error_object (token_expired_message example_cfg))
   \<and> \<not> hasToken (snd (protectedFetch example_cfg (\<lambda>n r. Inr (403, ''Forbidden''))
                        (\<lambda>body. Inr JNull) ''http://localhost:8081/search'' example_options
                        signed_in))"
proof -
  have h: "hasToken signed_in"
    by (simp add: hasToken_def signed_in_def)
  have s1: "(401::nat) = 401 \<or> (401::nat) = 403" by simp
  have s3: "(403::nat) = 401 \<or> (403::nat) = 403" by simp
  have e: "err_response (http_error 401 JNull) = Some (401, JNull)"
    by (simp add: http_error_def)
  show ?thesis
    using auth_failure_clears_credential [OF h s1, of "\<lambda>n r. Inl (http_error 401 JNull)"
        example_options "http_error 401 JNull" JNull example_cfg]
      auth_failure_clears_credential [OF h s3, where fnet = "\<lambda>n r. Inr (403, ''Forbidden'')"
        and reply = "''Forbidden''" and cfg = example_cfg]
      e
    by simp
qed

text \<open>
  C9: the credential is written by \<open>setToken\<close>, by \<open>clearToken\<close> and by the 401/403
  branch of the two executors only. A protected call that succeeds, or fails with
  anything but a 401 or 403 (an error without a response included), ends with the
  credential it started with; sending a request or sleeping does not touch it either.
\<close>

theorem credential_frame:
  "((\<forall>error. net (length (requests st)) (with_auth st options) = Inl error
        \<longrightarrow> \<not> auth_status error) \<longrightarrow>
      OAUTH_TOKEN (snd (protectedAxios cfg net options st)) = OAUTH_TOKEN st)
   \<and> ((\<forall>status body. fnet (length (requests st)) (with_auth_json st u fetchOptions)
                        = Inr (status, body) \<longrightarrow> status \<noteq> 401 \<and> status \<noteq> 403) \<longrightarrow>
      OAUTH_TOKEN (snd (protectedFetch cfg fnet parse u fetchOptions st)) = OAUTH_TOKEN st)
   \<and> OAUTH_TOKEN (snd (axios net options st)) = OAUTH_TOKEN st
   \<and> OAUTH_TOKEN (snd (fetch fnet options st)) = OAUTH_TOKEN st
   \<and> OAUTH_TOKEN (delay ms st) = OAUTH_TOKEN st
   \<and> OAUTH_TOKEN (setToken token st) = Some token
   \<and> OAUTH_TOKEN (clearToken st) = None"
  by (auto simp add: protectedAxios_def protectedFetch_def axios_def fetch_def delay_def
      log_request_def setToken_def clearToken_def split: sum.splits prod.splits)

theorem credential_frame_witness:
  "OAUTH_TOKEN (snd (protectedAxios example_cfg (\<lambda>n r. Inl (http_error 500 JNull))
                       example_options signed_in)) = Some ''tok''
   \<and> OAUTH_TOKEN (snd (protectedAxios example_cfg (\<lambda>n r. Inr (JArr []))
                       example_options signed_in)) = Some ''tok''
   \<and> OAUTH_TOKEN (snd (protectedFetch example_cfg (\<lambda>n r. Inr (500, ''oops''))
                       (\<lambda>body. Inl \<lparr>err_message = ''Unexpected token'', err_response = None\<rparr>)
                       ''http://localhost:8081/search'' example_options signed_in)) = Some ''tok''"
proof -
  have a: "\<forall>error. (\<lambda>n r. Inl (http_error 500 JNull)) (length (requests signed_in))
              (with_auth signed_in example_options) = Inl error \<longrightarrow> \<not> auth_status error"
    by (simp add: http_error_def auth_status_def)
  have b: "\<forall>error. (\<lambda>n r. Inr (JArr [])) (length (requests signed_in))
              (with_auth signed_in example_options) = Inl error \<longrightarrow> \<not> auth_status error"
    by simp
  have c: "\<forall>status body. (\<lambda>n r. Inr (500::nat, ''oops'')) (length (requests signed_in))
              (with_auth_json signed_in ''http://localhost:8081/search'' example_options)
                = Inr (status, body) \<longrightarrow> status \<noteq> 401 \<and> status \<noteq> 403"
    by simp
  have t: "OAUTH_TOKEN signed_in = Some ''tok''"
    by (simp add: signed_in_def)
  show ?thesis
    using credential_frame [where net = "\<lambda>n r. Inl (http_error 500 JNull)" and st = signed_in
        and options = example_options and fnet = "\<lambda>n r. Inr (500, ''oops'')"
        and u = "''http://localhost:8081/search''" and fetchOptions = example_options
        and cfg = example_cfg]
      credential_frame [where net = "\<lambda>n r. Inr (JArr [])" and st = signed_in
        and options = example_options and cfg = example_cfg]
      a b c t
    by simp
qed

section \<open>The repository identifier normalizer\<close>

text \<open>
  C7: the normalization to a full URL is idempotent; a reference that starts with
  \<open>http\<close> passes through unchanged, and any other reference receives the prefix
  \<open>https://github.com/\<close> exactly once.
\<close>

theorem toFullUrl_idempotent:
  "toFullUrl (toFullUrl r) = toFullUrl r
   \<and> (startsWith r ''http'' \<longrightarrow> toFullUrl r = r)
   \<and> (\<not> startsWith r ''http'' \<longrightarrow> toFullUrl r = ''https://github.com/'' @ r)"
  by (simp add: toFullUrl_def startsWith_def)

theorem toFullUrl_idempotent_witness:
  "toFullUrl (toFullUrl ''octo/widgets'') = toFullUrl ''octo/widgets''
   \<and> toFullUrl ''octo/widgets'' = ''https://github.com/octo/widgets''
   \<and> toFullUrl ''http://example.org/octo/widgets'' = ''http://example.org/octo/widgets''"
proof -
  have bare: "\<not> startsWith ''octo/widgets'' ''http''"
    by (simp add: startsWith_def)
  have full: "startsWith ''http://example.org/octo/widgets'' ''http''"
    by (simp add: startsWith_def)
  have one: "toFullUrl (toFullUrl ''octo/widgets'') = toFullUrl ''octo/widgets''"
    using toFullUrl_idempotent [of "''octo/widgets''"] by blast
  have two: "toFullUrl ''octo/widgets'' = ''https://github.com/'' @ ''octo/widgets''"
    using toFullUrl_idempotent [of "''octo/widgets''"] bare by blast
  have three: "toFullUrl ''http://example.org/octo/widgets'' = ''http://example.org/octo/widgets''"
    using toFullUrl_idempotent [of "''http://example.org/octo/widgets''"] full by blast
  from two have "toFullUrl ''octo/widgets'' = ''https://github.com/octo/widgets''"
    by simp
  with one three show ?thesis by blast
qed

section \<open>The single-shot orchestrator\<close>

lemma hasToken_log_request [simp]: "hasToken (log_request r st) = hasToken st"
  by (simp add: hasToken_def log_request_def)

lemma with_auth_log_request [simp]: "with_auth (log_request r st) options = with_auth st options"
  by (simp add: with_auth_def getAuthHeader_def log_request_def)

lemma requests_log_request [simp]: "requests (log_request r st) = requests st @ [r]"
  by (simp add: log_request_def)

lemma sleeps_log_request [simp]: "sleeps (log_request r st) = sleeps st"
  by (simp add: log_request_def)

lemma protectedAxios_success:
  assumes "hasToken st" and "net (length (requests st)) (with_auth st options) = Inr d"
  shows "protectedAxios cfg net options st = (Inr d, log_request (with_auth st options) st)"
  using assms by (simp add: protectedAxios_def axios_def)

lemma includes_js_append_right: "includes_js b t \<Longrightarrow> includes_js (a @ b) t"
proof -
  assume "includes_js b t"
  then obtain p q where "b = p @ t @ q" by (auto simp: includes_js_iff)
  then have "a @ b = (a @ p) @ t @ q" by simp
  then show ?thesis unfolding includes_js_iff by blast
qed

lemma includes_js_self: "includes_js t t"
  using includes_js_middle [of "[]" t "[]"] by simp

lemma template_error_object [simp]:
  "template (get_prop (error_object m) ''message'') = m"
  by (simp add: template_def error_object_def)

lemma index_failed_error_object [simp]: "index_failed (error_object m)"
  by (simp add: index_failed_def error_object_def truthy_opt_def)

lemma not_found_or_error_error_object [simp]: "not_found_or_error (error_object m) = Inr True"
  by (simp add: not_found_or_error_def error_object_def truthy_opt_def)

lemma search_then_index_auth_failure:
  assumes "hasToken st"
    and "net (length (requests st)) (with_auth st search) = Inl error"
    and "auth_status error"
  shows "search_then_index cfg net search repository st
           = (Inr (text_result (index_failed_message repository
                                  (error_object (no_token_message cfg)))),
              clearToken (log_request (with_auth st search) st))"
  using assms
  by (simp add: search_then_index_def protectedAxios_auth_failure protectedAxios_no_token
      hasToken_clearToken)

lemma index_failed_message_no_token:
  "includes_js (index_failed_message repository (error_object (no_token_message cfg)))
     (no_token_message cfg)"
  unfolding index_failed_message_def template_error_object
  by (intro includes_js_append_right) (rule includes_js_self)

lemma err_response_http_error [simp]: "err_response (http_error status body) = Some (status, body)"
  by (simp add: http_error_def)

lemma hasToken_signed_in [simp]: "hasToken signed_in"
  by (simp add: hasToken_def signed_in_def)

lemma hasToken_signed_out [simp]: "\<not> hasToken signed_out"
  by (simp add: hasToken_def signed_out_def)

text \<open>
  C1, as the code has it. A run started while no credential is stored ends at once with
  the reauthentication prompt in every configuration (\<open>vectorSearch\<close>,
  \<open>vectorSearchWithSummary\<close>, and \<open>chat\<close> on a message that is not a command): the
  state is returned as it was, so no search, no indexing request and no delay happened.
  When the protected executor signals an auth failure (401 or 403) for the search of the
  single-shot configuration, the run sends nothing after that search: the credential is
  cleared, the index call stops in the executor's no-credential branch, and the text
  returned is the indexing-failure message that ends with the no-token prompt, login URL
  included.
\<close>

theorem no_credential_prompt:
  "(\<not> hasToken st \<longrightarrow>
      vectorSearch cfg net query repository limit st
        = (Inr (text_result (no_token_message cfg)), st)
      \<and> vectorSearchWithSummary cfg net query repository limit branch st
        = (Inr (text_result (no_token_message cfg)), st)
      \<and> (\<not> startsWith (trim message) ''/set-token ''
           \<and> \<not> startsWith (trim message) ''/index-repo '' \<longrightarrow>
         chat cfg net message repository st = (Inr (text_result (no_token_message cfg)), st)))
   \<and> (hasToken st \<and> auth_status error \<longrightarrow>
        (net (length (requests st))
             (with_auth st (search_request cfg query repository
                              (case limit of None \<Rightarrow> 5 | Some l \<Rightarrow> l))) = Inl error \<longrightarrow>
         vectorSearch cfg net query repository limit st
           = (Inr (text_result (index_failed_message repository
                                  (error_object (no_token_message cfg)))),
              clearToken (log_request
                (with_auth st (search_request cfg query repository
                                 (case limit of None \<Rightarrow> 5 | Some l \<Rightarrow> l))) st)))
      \<and> (net (length (requests st)) (with_auth st (search_request cfg message repository 5))
            = Inl error
           \<and> \<not> startsWith (trim message) ''/set-token ''
           \<and> \<not> startsWith (trim message) ''/index-repo '' \<longrightarrow>
         chat cfg net message repository st
           = (Inr (text_result (index_failed_message repository
                                  (error_object (no_token_message cfg)))),
              clearToken (log_request
                (with_auth st (search_request cfg message repository 5)) st))))
   \<and> includes_js (index_failed_message repository (error_object (no_token_message cfg)))
        (no_token_message cfg)
   \<and> includes_js (no_token_message cfg) (GO_SERVER_URL cfg @ ''/auth/login'')"
  by (simp add: vectorSearch_def vectorSearchWithSummary_def chat_def
      search_then_index_auth_failure index_failed_message_no_token no_token_message_login_url)

theorem no_credential_prompt_witness:
  "vectorSearch example_cfg (backend_rejects 401 JNull) ''auth flow'' ''octo/widgets'' None
     signed_out = (Inr (text_result (no_token_message example_cfg)), signed_out)
   \<and> vectorSearchWithSummary example_cfg (backend_rejects 401 JNull) ''auth flow''
       ''octo/widgets'' None None signed_out
     = (Inr (text_result (no_token_message example_cfg)), signed_out)
   \<and> chat example_cfg (backend_rejects 401 JNull) ''where is the auth flow?'' ''octo/widgets''
       signed_out = (Inr (text_result (no_token_message example_cfg)), signed_out)
   \<and> vectorSearch example_cfg (backend_rejects 401 JNull) ''auth flow'' ''octo/widgets'' None
       signed_in
     = (Inr (text_result (index_failed_message ''octo/widgets''
                            (error_object (no_token_message example_cfg)))),
        clearToken (log_request
          (with_auth signed_in (search_request example_cfg ''auth flow'' ''octo/widgets'' 5))
          signed_in))
   \<and> chat example_cfg (backend_rejects 401 JNull) ''where is the auth flow?'' ''octo/widgets''
       signed_in
     = (Inr (text_result (index_failed_message ''octo/widgets''
                            (error_object (no_token_message example_cfg)))),
        clearToken (log_request
          (with_auth signed_in
             (search_request example_cfg ''where is the auth flow?'' ''octo/widgets'' 5))
          signed_in))"
proof -
  have m1: "\<not> startsWith (trim ''where is the auth flow?'') ''/set-token ''"
    by code_simp
  have m2: "\<not> startsWith (trim ''where is the auth flow?'') ''/index-repo ''"
    by code_simp
  have a: "auth_status (http_error 401 JNull)"
    by (simp add: auth_status_def)
  have n: "backend_rejects 401 JNull n r = Inl (http_error 401 JNull)" for n r
    by (simp add: backend_rejects_def)
  show ?thesis
    using no_credential_prompt [where st = signed_out and cfg = example_cfg
        and net = "backend_rejects 401 JNull" and query = "''auth flow''"
        and repository = "''octo/widgets''" and limit = None and branch = None
        and message = "''where is the auth flow?''"]
      no_credential_prompt [where st = signed_in and cfg = example_cfg
        and net = "backend_rejects 401 JNull" and query = "''auth flow''"
        and repository = "''octo/widgets''" and limit = None
        and message = "''where is the auth flow?''" and error = "http_error 401 JNull"]
      m1 m2 a n
    by simp
qed

text \<open>
  The property as the specification states it fails on an auth failure. In the single-shot configuration
  the text returned after a 401 is neither of the two prompts but the indexing-failure
  message; in the polling configuration, whose search does not go through the protected
  executor, a 401 ends the run with the ``after multiple attempts'' message and the
  credential still stored.
\<close>

theorem reauth_prompt_counterexample:
  "fst (vectorSearch example_cfg (backend_rejects 401 JNull) ''auth flow'' ''octo/widgets'' None
          signed_in)
     = Inr (text_result (index_failed_message ''octo/widgets''
                           (error_object (no_token_message example_cfg))))
   \<and> index_failed_message ''octo/widgets'' (error_object (no_token_message example_cfg))
       \<noteq> no_token_message example_cfg
   \<and> index_failed_message ''octo/widgets'' (error_object (no_token_message example_cfg))
       \<noteq> token_expired_message example_cfg
   \<and> fst (vectorSearchWithSummary example_cfg (backend_rejects 401 JNull) ''auth flow''
            ''octo/widgets'' None None signed_in)
     = Inr (text_result (retries_failed_message ''octo/widgets'' (Some (http_error 401 JNull))))
   \<and> retries_failed_message ''octo/widgets'' (Some (http_error 401 JNull))
       \<noteq> no_token_message example_cfg
   \<and> retries_failed_message ''octo/widgets'' (Some (http_error 401 JNull))
       \<noteq> token_expired_message example_cfg
   \<and> hasToken (snd (vectorSearchWithSummary example_cfg (backend_rejects 401 JNull)
                      ''auth flow'' ''octo/widgets'' None None signed_in))"
  by code_simp

section \<open>Successful payloads\<close>











section \<open>The polling orchestrator\<close>

lemma summary_request_token:
  "OAUTH_TOKEN st' = OAUTH_TOKEN st \<Longrightarrow>
   summary_request cfg st' query repository limit branch
     = summary_request cfg st query repository limit branch"
  by (simp add: summary_request_def getAuthHeader_def)

lemma OAUTH_TOKEN_log_request [simp]: "OAUTH_TOKEN (log_request r st) = OAUTH_TOKEN st"
  by (simp add: log_request_def)

lemma OAUTH_TOKEN_delay [simp]: "OAUTH_TOKEN (delay ms st) = OAUTH_TOKEN st"
  by (simp add: delay_def)

lemma requests_delay [simp]: "requests (delay ms st) = requests st"
  by (simp add: delay_def)

lemma sleeps_delay [simp]: "sleeps (delay ms st) = sleeps st @ [ms]"
  by (simp add: delay_def)

lemma hasToken_delay [simp]: "hasToken (delay ms st) = hasToken st"
  by (simp add: hasToken_def)

lemma classified_NotIndexedD:
  "classified_NotIndexed error \<Longrightarrow>
   \<exists>notFound. notFound_of error = Inr notFound \<and> (notFound \<or> status_404_or_500 error)"
  by (auto simp: classified_NotIndexed_def split: sum.splits)

lemma summary_loop_other_error:
  assumes "attempt < 6"
    and "net (length (requests st)) (summary_request cfg st query repository limit branch)
           = Inl error"
    and "notFound_of error = Inr False" and "\<not> status_404_or_500 error"
  shows "summary_loop cfg net query repository limit branch attempt indexed lastError st
           = (Inr (text_result (retries_failed_message repository (Some error))),
              log_request (summary_request cfg st query repository limit branch) st)"
  using assms by (subst summary_loop.simps) (simp add: axios_def)

text \<open>One round of the loop once indexing has been triggered.\<close>

lemma summary_loop_retry:
  assumes "attempt < 5"
    and "net (length (requests st)) (summary_request cfg st query repository limit branch)
           = Inl error"
    and "classified_NotIndexed error"
  shows "summary_loop cfg net query repository limit branch attempt True lastError st
           = summary_loop cfg net query repository limit branch (attempt + 1) True (Some error)
               (delay 10000 (log_request (summary_request cfg st query repository limit branch) st))"
proof -
  from assms(3) obtain notFound where
    "notFound_of error = Inr notFound" "notFound \<or> status_404_or_500 error"
    by (auto dest: classified_NotIndexedD)
  with assms(1,2) show ?thesis
    by (subst summary_loop.simps) (simp add: axios_def)
qed

lemma summary_loop_last:
  assumes "net (length (requests st)) (summary_request cfg st query repository limit branch)
           = Inl error"
    and "classified_NotIndexed error"
  shows "summary_loop cfg net query repository limit branch 5 True lastError st
           = (Inr (text_result (retries_failed_message repository (Some error))),
              log_request (summary_request cfg st query repository limit branch) st)"
proof -
  from assms(2) obtain notFound where
    "notFound_of error = Inr notFound" "notFound \<or> status_404_or_500 error"
    by (auto dest: classified_NotIndexedD)
  with assms(1) show ?thesis
    by (subst summary_loop.simps) (simp add: axios_def)
qed

lemma summary_loop_first_index:
  assumes "attempt < 6" and "hasToken st"
    and "net (length (requests st)) (summary_request cfg st query repository limit branch)
           = Inl error"
    and "classified_NotIndexed error"
    and "net (length (requests st) + 1) (with_auth st (index_request cfg (toFullUrl repository)))
           = Inr indexResult"
    and "\<not> index_failed indexResult"
  shows "summary_loop cfg net query repository limit branch attempt False lastError st
           = summary_loop cfg net query repository limit branch (attempt + 1) True (Some error)
               (delay 10000
                 (log_request (with_auth st (index_request cfg (toFullUrl repository)))
                   (log_request (summary_request cfg st query repository limit branch) st)))"
proof -
  from assms(4) obtain notFound where
    "notFound_of error = Inr notFound" "notFound \<or> status_404_or_500 error"
    by (auto dest: classified_NotIndexedD)
  with assms(1,2,3,5,6) show ?thesis
    by (subst summary_loop.simps) (simp add: axios_def protectedAxios_success)
qed


lemma summary_loop_exhausts:
  assumes "\<forall>n. \<exists>e. net n sreq = Inl e \<and> classified_NotIndexed e"
  shows "attempt + k = 5 \<Longrightarrow> summary_request cfg st query repository limit branch = sreq \<Longrightarrow>
         \<exists>e. net (length (requests st) + k) sreq = Inl e \<and>
           summary_loop cfg net query repository limit branch attempt True lastError st
             = (Inr (text_result (retries_failed_message repository (Some e))),
                st\<lparr>requests := requests st @ replicate (Suc k) sreq,
                   sleeps := sleeps st @ replicate k 10000\<rparr>)"
proof (induction k arbitrary: attempt st lastError)
  case 0
  from assms obtain e where e: "net (length (requests st)) sreq = Inl e" "classified_NotIndexed e"
    by blast
  from 0 have a: "attempt = 5" by simp
  have "summary_loop cfg net query repository limit branch 5 True lastError st
          = (Inr (text_result (retries_failed_message repository (Some e))),
             log_request sreq st)"
    using summary_loop_last [of net st cfg query repository limit branch e lastError] e "0.prems"(2)
    by simp
  moreover have "log_request sreq st
      = st\<lparr>requests := requests st @ replicate (Suc 0) sreq,
           sleeps := sleeps st @ replicate 0 10000\<rparr>"
    by (simp add: log_request_def)
  ultimately have "net (length (requests st) + 0) sreq = Inl e \<and>
           summary_loop cfg net query repository limit branch attempt True lastError st
             = (Inr (text_result (retries_failed_message repository (Some e))),
                st\<lparr>requests := requests st @ replicate (Suc 0) sreq,
                   sleeps := sleeps st @ replicate 0 10000\<rparr>)"
    using e(1) a by simp
  then show ?case by (rule exI)
next
  case (Suc k)
  from assms obtain e where e: "net (length (requests st)) sreq = Inl e" "classified_NotIndexed e"
    by blast
  let ?st = "delay 10000 (log_request sreq st)"
  from Suc.prems have lt: "attempt < 5" and eq: "(attempt + 1) + k = 5" by simp_all
  have sr: "summary_request cfg ?st query repository limit branch = sreq"
    using summary_request_token [of "?st" st cfg query repository limit branch] Suc.prems(2)
    by simp
  from Suc.IH [OF eq sr, of "Some e"] obtain e' where
    both: "net (length (requests ?st) + k) sreq = Inl e' \<and>
       summary_loop cfg net query repository limit branch (attempt + 1) True (Some e) ?st
              = (Inr (text_result (retries_failed_message repository (Some e'))),
                 ?st\<lparr>requests := requests ?st @ replicate (Suc k) sreq,
                    sleeps := sleeps ?st @ replicate k 10000\<rparr>)" ..
  note e' = conjunct1 [OF both] and run = conjunct2 [OF both]
  have step: "summary_loop cfg net query repository limit branch attempt True lastError st
              = summary_loop cfg net query repository limit branch (attempt + 1) True (Some e) ?st"
    using summary_loop_retry [OF lt, of net st cfg query repository limit branch e lastError]
      e Suc.prems(2) by simp
  have "net (length (requests st) + Suc k) sreq = Inl e'"
    using e' by simp
  moreover have "?st\<lparr>requests := requests ?st @ replicate (Suc k) sreq,
                    sleeps := sleeps ?st @ replicate k 10000\<rparr>
      = st\<lparr>requests := requests st @ replicate (Suc (Suc k)) sreq,
           sleeps := sleeps st @ replicate (Suc k) 10000\<rparr>"
    by (simp add: delay_def log_request_def)
  ultimately have "net (length (requests st) + Suc k) sreq = Inl e' \<and>
           summary_loop cfg net query repository limit branch attempt True lastError st
             = (Inr (text_result (retries_failed_message repository (Some e'))),
                st\<lparr>requests := requests st @ replicate (Suc (Suc k)) sreq,
                   sleeps := sleeps st @ replicate (Suc k) 10000\<rparr>)"
    using step run by simp
  then show ?case by (rule exI)
qed


text \<open>
  C4, as the code has it. In a run of the polling configuration in which every search
  fails with an error classified NotIndexed, and the indexing trigger is accepted (its
  answer carries no error marker), the handler makes exactly six searches and exactly one
  indexing call, the second request of the run, sleeps 10 seconds five times, and returns
  the ``not found or not indexed after multiple attempts'' text that ends with the message
  of the last error, the one of the sixth search.
\<close>

theorem polling_exhausts_budget:
  assumes "hasToken st"
    and "sreq = summary_request cfg st query repository
                  (case limit of None \<Rightarrow> 5 | Some l \<Rightarrow> l)
                  (case branch of None \<Rightarrow> ''main'' | Some b \<Rightarrow> b)"
    and "ireq = with_auth st (index_request cfg (toFullUrl repository))"
    and "\<forall>n. \<exists>e. net n sreq = Inl e \<and> classified_NotIndexed e"
    and "net (length (requests st) + 1) ireq = Inr indexResult"
    and "\<not> index_failed indexResult"
  shows "\<exists>e. net (length (requests st) + 6) sreq = Inl e \<and>
           vectorSearchWithSummary cfg net query repository limit branch st
             = (Inr (text_result (retries_failed_message repository (Some e))),
                st\<lparr>requests := requests st @ [sreq, ireq] @ replicate 5 sreq,
                   sleeps := sleeps st @ replicate 5 10000\<rparr>)
           \<and> length (filter (\<lambda>r. req_url r = GO_SERVER_URL cfg @ ''/search/summary'')
                        ([sreq, ireq] @ replicate 5 sreq)) = 6
           \<and> length (filter (\<lambda>r. req_url r = GO_SERVER_URL cfg @ ''/index'')
                        ([sreq, ireq] @ replicate 5 sreq)) = 1
           \<and> retries_failed_message repository (Some e)
               = ''Repository '' @ [CHR 0x27] @ repository @ [CHR 0x27]
                 @ '' not found or not indexed after multiple attempts. Please try again later. Last error: ''
                 @ err_message e"
proof -
  let ?l = "case limit of None \<Rightarrow> 5 | Some l \<Rightarrow> l"
  let ?b = "case branch of None \<Rightarrow> ''main'' | Some b \<Rightarrow> b"
  from assms(4) obtain e0 where e0: "net (length (requests st)) sreq = Inl e0"
    "classified_NotIndexed e0" by blast
  let ?st = "delay 10000 (log_request ireq (log_request sreq st))"
  have first: "summary_loop cfg net query repository ?l ?b 0 False None st
      = summary_loop cfg net query repository ?l ?b (0 + 1) True (Some e0) ?st"
    using summary_loop_first_index [of 0 st net cfg query repository ?l ?b e0 indexResult None]
      assms(1,2,3,5,6) e0 by simp
  have sr: "summary_request cfg ?st query repository ?l ?b = sreq"
    using summary_request_token [of "?st" st cfg query repository ?l ?b] assms(2) by simp
  have "(0 + 1) + 4 = (5::nat)" by simp
  from summary_loop_exhausts [where net = net and sreq = sreq and attempt = "0 + 1" and k = 4
      and lastError = "Some e0", OF assms(4) this sr] obtain e where
    both: "net (length (requests ?st) + 4) sreq = Inl e \<and>
       summary_loop cfg net query repository ?l ?b (0 + 1) True (Some e0) ?st
         = (Inr (text_result (retries_failed_message repository (Some e))),
            ?st\<lparr>requests := requests ?st @ replicate (Suc 4) sreq,
               sleeps := sleeps ?st @ replicate 4 10000\<rparr>)" ..
  have e: "net (length (requests st) + 6) sreq = Inl e"
    using conjunct1 [OF both] by (simp add: add.commute)
  have fin: "?st\<lparr>requests := requests ?st @ replicate (Suc 4) sreq,
               sleeps := sleeps ?st @ replicate 4 10000\<rparr>
      = st\<lparr>requests := requests st @ [sreq, ireq] @ replicate 5 sreq,
           sleeps := sleeps st @ replicate 5 10000\<rparr>"
    by (simp add: delay_def log_request_def numeral_eq_Suc)
  have run: "vectorSearchWithSummary cfg net query repository limit branch st
             = (Inr (text_result (retries_failed_message repository (Some e))),
                st\<lparr>requests := requests st @ [sreq, ireq] @ replicate 5 sreq,
                   sleeps := sleeps st @ replicate 5 10000\<rparr>)"
    using assms(1) first conjunct2 [OF both] fin by (simp add: vectorSearchWithSummary_def)
  have su: "req_url sreq = GO_SERVER_URL cfg @ ''/search/summary''"
    by (simp add: assms(2) summary_request_def)
  have iu: "req_url ireq = GO_SERVER_URL cfg @ ''/index''"
    by (simp add: assms(3) with_auth_def index_request_def)
  have c6: "length (filter (\<lambda>r. req_url r = GO_SERVER_URL cfg @ ''/search/summary'')
                        ([sreq, ireq] @ replicate 5 sreq)) = 6"
    by (simp add: su iu)
  have c1: "length (filter (\<lambda>r. req_url r = GO_SERVER_URL cfg @ ''/index'')
                        ([sreq, ireq] @ replicate 5 sreq)) = 1"
    by (simp add: su iu)
  have msg: "retries_failed_message repository (Some e)
               = ''Repository '' @ [CHR 0x27] @ repository @ [CHR 0x27]
                 @ '' not found or not indexed after multiple attempts. Please try again later. Last error: ''
                 @ err_message e"
    by (simp add: retries_failed_message_def)
  from e run c6 c1 msg show ?thesis by (intro exI [of _ e] conjI)
qed

theorem polling_exhausts_budget_witness:
  "vectorSearchWithSummary example_cfg (unindexed_backend index_accepted) ''auth flow''
     ''octo/widgets'' None None signed_in
   = (Inr (text_result (retries_failed_message ''octo/widgets''
                          (Some (http_error 404 not_found_body)))),
      signed_in\<lparr>requests := requests signed_in
          @ [summary_request example_cfg signed_in ''auth flow'' ''octo/widgets'' 5 ''main'',
             with_auth signed_in (index_request example_cfg (toFullUrl ''octo/widgets''))]
          @ replicate 5 (summary_request example_cfg signed_in ''auth flow'' ''octo/widgets'' 5
                           ''main''),
        sleeps := sleeps signed_in @ replicate 5 10000\<rparr>)"
proof -
  let ?S = "summary_request example_cfg signed_in ''auth flow'' ''octo/widgets''
              (case None of None \<Rightarrow> 5 | Some l \<Rightarrow> l)
              (case None of None \<Rightarrow> ''main'' | Some b \<Rightarrow> b)"
  let ?I = "with_auth signed_in (index_request example_cfg (toFullUrl ''octo/widgets''))"
  have s: "unindexed_backend index_accepted n ?S = Inl (http_error 404 not_found_body)" for n
    by (simp add: unindexed_backend_def summary_request_def example_cfg_def)
  have c: "classified_NotIndexed (http_error 404 not_found_body)"
    by code_simp
  have h4: "\<forall>n. \<exists>e. unindexed_backend index_accepted n ?S = Inl e \<and> classified_NotIndexed e"
    using s c by simp
  have h5: "unindexed_backend index_accepted (length (requests signed_in) + 1) ?I
              = Inr index_accepted"
    by (simp add: unindexed_backend_def with_auth_def index_request_def example_cfg_def)
  have h6: "\<not> index_failed index_accepted"
    by code_simp
  from polling_exhausts_budget [OF hasToken_signed_in refl refl h4 h5 h6]
  obtain e where
    "unindexed_backend index_accepted (length (requests signed_in) + 6) ?S = Inl e"
    and "vectorSearchWithSummary example_cfg (unindexed_backend index_accepted) ''auth flow''
           ''octo/widgets'' None None signed_in
         = (Inr (text_result (retries_failed_message ''octo/widgets'' (Some e))),
            signed_in\<lparr>requests := requests signed_in @ [?S, ?I] @ replicate 5 ?S,
              sleeps := sleeps signed_in @ replicate 5 10000\<rparr>)"
    by (elim exE conjE)
  then show ?thesis
    using s by simp
qed

text \<open>
  The property as the specification states it leaves the outcome of the indexing trigger open. When the
  trigger fails, a run on the same never-indexed backend ends after one search and one
  indexing call with the indexing-failure text, not with the ``after multiple attempts''
  text.
\<close>

theorem polling_index_failure_counterexample:
  "fst (vectorSearchWithSummary example_cfg (unindexed_backend (status_error ''clone failed''))
          ''auth flow'' ''octo/widgets'' None None signed_in)
     = Inr (text_result (index_failed_message ''octo/widgets'' (status_error ''clone failed'')))
   \<and> \<not> includes_js (index_failed_message ''octo/widgets'' (status_error ''clone failed''))
          ''after multiple attempts''
   \<and> map req_url (requests (snd (vectorSearchWithSummary example_cfg
          (unindexed_backend (status_error ''clone failed'')) ''auth flow'' ''octo/widgets''
          None None signed_in)))
     = [''http://localhost:8081/search/summary'', ''http://localhost:8081/index'']"
  by code_simp

text \<open>
  The flag \<open>notFound\<close> is computed and false exactly when the message that the
  \<open>catch\<close> block inspects lacks the phrases: the message of the response data when that
  is an object, the error's own message otherwise.
\<close>

lemma notFound_of_False_iff:
  "notFound_of error = Inr False \<longleftrightarrow>
     (if truthy (responseData_of error) \<and> is_object (responseData_of error)
      then message_lacks (get_prop (responseData_of error) ''message'')
             [''not found'', ''not indexed'']
      else \<not> includes_js (toLowerCase (err_message error)) ''not found'')"
  by (auto simp: notFound_of_def message_lacks_def split: option.splits json.splits)

lemma status_404_or_500_iff:
  "status_404_or_500 error \<longleftrightarrow>
     (case err_response error of
        None \<Rightarrow> False
      | Some (status, body) \<Rightarrow> status = 404 \<or> status = 500)"
  by (simp add: status_404_or_500_def)

text \<open>
  C10, as the code has it. In the polling configuration a search failure ends the run at
  that attempt when its status is neither 404 nor 500 and the message that the \<open>catch\<close>
  block inspects lacks the phrases: the message of the response data, when that is an
  object, is absent, falsy or a string without ``not found'' and ``not indexed'' in any
  letter case, or, the response data being no object, the error's own message is without
  ``not found''. The failed search is then the last request, no indexing call and no
  delay follow, and the text returned is the ``not found or not indexed after multiple
  attempts'' message with the message of that error, also when the failure is that of
  the first and only attempt of a run.
\<close>

theorem other_failure_ends_polling:
  assumes "sreq = summary_request cfg st query repository l b"
    and "net (length (requests st)) sreq = Inl error"
    and "if truthy (responseData_of error) \<and> is_object (responseData_of error)
         then message_lacks (get_prop (responseData_of error) ''message'')
                [''not found'', ''not indexed'']
         else \<not> includes_js (toLowerCase (err_message error)) ''not found''"
    and "case err_response error of
           None \<Rightarrow> True
         | Some (status, body) \<Rightarrow> status \<noteq> 404 \<and> status \<noteq> 500"
  shows "(attempt < 6 \<longrightarrow>
            summary_loop cfg net query repository l b attempt indexed lastError st
              = (Inr (text_result (retries_failed_message repository (Some error))),
                 log_request sreq st))
       \<and> (hasToken st \<and> l = (case limit of None \<Rightarrow> 5 | Some l \<Rightarrow> l)
            \<and> b = (case branch of None \<Rightarrow> ''main'' | Some b \<Rightarrow> b) \<longrightarrow>
            vectorSearchWithSummary cfg net query repository limit branch st
              = (Inr (text_result (retries_failed_message repository (Some error))),
                 log_request sreq st))
       \<and> requests (log_request sreq st) = requests st @ [sreq]
       \<and> sleeps (log_request sreq st) = sleeps st
       \<and> retries_failed_message repository (Some error)
           = ''Repository '' @ [CHR 0x27] @ repository @ [CHR 0x27]
             @ '' not found or not indexed after multiple attempts. Please try again later. Last error: ''
             @ err_message error"
proof -
  have nf: "notFound_of error = Inr False"
    using assms(3) by (simp only: notFound_of_False_iff)
  have ns: "\<not> status_404_or_500 error"
    using assms(4) by (auto simp: status_404_or_500_iff split: option.splits)
  have loop: "summary_loop cfg net query repository l b k i e st
              = (Inr (text_result (retries_failed_message repository (Some error))),
                 log_request sreq st)" if "k < 6" for k i e
    using summary_loop_other_error [OF that, of net st cfg query repository l b error i e]
      assms(1,2) nf ns by simp
  have msg: "retries_failed_message repository (Some error)
           = ''Repository '' @ [CHR 0x27] @ repository @ [CHR 0x27]
             @ '' not found or not indexed after multiple attempts. Please try again later. Last error: ''
             @ err_message error"
    by (simp add: retries_failed_message_def)
  have run: "vectorSearchWithSummary cfg net query repository limit branch st
              = (Inr (text_result (retries_failed_message repository (Some error))),
                 log_request sreq st)"
    if "hasToken st" "l = (case limit of None \<Rightarrow> 5 | Some l \<Rightarrow> l)"
      "b = (case branch of None \<Rightarrow> ''main'' | Some b \<Rightarrow> b)"
    using loop [of 0 False None] that by (simp add: vectorSearchWithSummary_def)
  have log: "requests (log_request sreq st) = requests st @ [sreq]
             \<and> sleeps (log_request sreq st) = sleeps st"
    by simp
  from loop [of attempt indexed lastError] run log msg show ?thesis
    by blast
qed

theorem other_failure_ends_polling_witness:
  "vectorSearchWithSummary example_cfg (backend_fails timeout_error) ''auth flow''
     ''octo/widgets'' None None signed_in
   = (Inr (text_result (retries_failed_message ''octo/widgets'' (Some timeout_error))),
      log_request (summary_request example_cfg signed_in ''auth flow'' ''octo/widgets'' 5 ''main'')
        signed_in)
   \<and> summary_loop example_cfg (backend_rejects 400 bad_request_body) ''auth flow''
       ''octo/widgets'' 5 ''main'' 3 True None signed_in
   = (Inr (text_result (retries_failed_message ''octo/widgets''
                          (Some (http_error 400 bad_request_body)))),
      log_request (summary_request example_cfg signed_in ''auth flow'' ''octo/widgets'' 5 ''main'')
        signed_in)"
proof -
  let ?sreq = "summary_request example_cfg signed_in ''auth flow'' ''octo/widgets'' 5 ''main''"
  let ?e = "http_error 400 bad_request_body"
  have n1: "backend_fails timeout_error (length (requests signed_in)) ?sreq = Inl timeout_error"
    by (simp add: backend_fails_def)
  have c1: "if truthy (responseData_of timeout_error) \<and> is_object (responseData_of timeout_error)
         then message_lacks (get_prop (responseData_of timeout_error) ''message'')
                [''not found'', ''not indexed'']
         else \<not> includes_js (toLowerCase (err_message timeout_error)) ''not found''"
    by code_simp
  have s1: "case err_response timeout_error of
           None \<Rightarrow> True
         | Some (status, body) \<Rightarrow> status \<noteq> 404 \<and> status \<noteq> 500"
    by (simp add: timeout_error_def)
  have n2: "backend_rejects 400 bad_request_body (length (requests signed_in)) ?sreq = Inl ?e"
    by (simp add: backend_rejects_def)
  have c2: "if truthy (responseData_of ?e) \<and> is_object (responseData_of ?e)
         then message_lacks (get_prop (responseData_of ?e) ''message'')
                [''not found'', ''not indexed'']
         else \<not> includes_js (toLowerCase (err_message ?e)) ''not found''"
    by code_simp
  have s2: "case err_response ?e of
           None \<Rightarrow> True
         | Some (status, body) \<Rightarrow> status \<noteq> 404 \<and> status \<noteq> 500"
    by simp
  have three: "(3::nat) < 6" by simp
  have w1: "vectorSearchWithSummary example_cfg (backend_fails timeout_error) ''auth flow''
      ''octo/widgets'' None None signed_in
    = (Inr (text_result (retries_failed_message ''octo/widgets'' (Some timeout_error))),
       log_request ?sreq signed_in)"
    using other_failure_ends_polling [where net = "backend_fails timeout_error"
        and st = signed_in and cfg = example_cfg and query = "''auth flow''"
        and repository = "''octo/widgets''" and l = 5 and b = "''main''"
        and error = timeout_error and limit = None and branch = None, OF refl n1 c1 s1]
    by simp
  have w2: "summary_loop example_cfg (backend_rejects 400 bad_request_body) ''auth flow''
       ''octo/widgets'' 5 ''main'' 3 True None signed_in
    = (Inr (text_result (retries_failed_message ''octo/widgets'' (Some ?e))),
       log_request ?sreq signed_in)"
    using other_failure_ends_polling [where net = "backend_rejects 400 bad_request_body"
        and st = signed_in and cfg = example_cfg and query = "''auth flow''"
        and repository = "''octo/widgets''" and l = 5 and b = "''main''"
        and error = ?e and attempt = 3 and indexed = True and lastError = None,
        OF refl n2 c2 s2] three
    by simp
  show ?thesis
    by (rule conjI [OF w1 w2])
qed

text \<open>
  The property as the specification states it asks less of the failure: any message
  lacking the phrases. A 400 whose body carries the number 123 as its message lacks them
  and is not classified NotIndexed, yet the run does not end with the text: the
  \<open>catch\<close> block throws on \<open>toLowerCase\<close>, and the error leaves the handler.
\<close>

theorem numeric_message_counterexample:
  "vectorSearchWithSummary example_cfg (backend_rejects 400 numeric_message_body) ''auth flow''
     ''octo/widgets'' None None signed_in
   = (Inl TypeError_toLowerCase,
      log_request (summary_request example_cfg signed_in ''auth flow'' ''octo/widgets'' 5 ''main'')
        signed_in)
   \<and> \<not> classified_NotIndexed (http_error 400 numeric_message_body)
   \<and> \<not> status_404_or_500 (http_error 400 numeric_message_body)"
  by code_simp

section \<open>Traces of runs\<close>

lemma traced_iff:
  "traced P Q st st' \<longleftrightarrow>
     (\<exists>rs ds. requests st' = requests st @ rs \<and> sleeps st' = sleeps st @ ds
        \<and> list_all P rs \<and> list_all Q ds)"
  by (auto simp: traced_def sent_since_def slept_since_def prefix_def)

lemma traced_refl: "requests st' = requests st \<Longrightarrow> sleeps st' = sleeps st \<Longrightarrow> traced P Q st st'"
  by (simp add: traced_iff)

lemma traced_trans: "traced P Q st st1 \<Longrightarrow> traced P Q st1 st2 \<Longrightarrow> traced P Q st st2"
  by (auto simp: traced_iff)

lemma traced_log_request: "P r \<Longrightarrow> traced P Q st (log_request r st)"
  by (simp add: traced_iff)

lemma traced_delay: "Q ms \<Longrightarrow> traced P Q st (delay ms st)"
  by (simp add: traced_iff)

lemma traced_clearToken: "traced P Q st st' \<Longrightarrow> traced P Q st (clearToken st')"
  by (simp add: traced_iff clearToken_def)

lemma traced_protectedAxios:
  "P (with_auth st options) \<Longrightarrow> traced P Q st (snd (protectedAxios cfg net options st))"
  by (auto simp: protectedAxios_def axios_def traced_refl traced_log_request traced_clearToken
      split: sum.splits)

lemma req_timeout_with_auth [simp]: "req_timeout (with_auth st options) = req_timeout options"
  by (simp add: with_auth_def)

lemma req_timeout_search_request [simp]:
  "req_timeout (search_request cfg query repository limit) = None"
  by (simp add: search_request_def)

lemma req_timeout_index_request [simp]: "req_timeout (index_request cfg u) = None"
  by (simp add: index_request_def)

lemma req_timeout_summary_request [simp]:
  "req_timeout (summary_request cfg st query repository limit branch) = None"
  by (simp add: summary_request_def)

lemma traced_search_then_index:
  "traced (\<lambda>r. req_timeout r = None) Q st
     (snd (search_then_index cfg net (search_request cfg query repository limit) repository st))"
proof -
  let ?P = "\<lambda>r. req_timeout r = None"
  let ?s = "protectedAxios cfg net (search_request cfg query repository limit) st"
  have one: "traced ?P Q st (snd ?s)"
    by (rule traced_protectedAxios) simp
  have two: "traced ?P Q (snd ?s)
      (snd (protectedAxios cfg net (index_request cfg (toFullUrl repository)) (snd ?s)))"
    by (rule traced_protectedAxios) simp
  show ?thesis
    using one traced_trans [OF one two]
    by (auto simp: search_then_index_def split: prod.splits sum.splits bool.splits)
qed

lemma traced_summary_loop:
  "traced (\<lambda>r. req_timeout r = None) (\<lambda>d. d = 10000) st
     (snd (summary_loop cfg net query repository limit branch attempt indexed lastError st))"
proof (induction cfg net query repository limit branch attempt indexed lastError st
    rule: summary_loop.induct)
  case (1 cfg net query repository limit branch attempt indexed lastError st)
  let ?P = "\<lambda>r. req_timeout r = None" and ?Q = "\<lambda>d. d = (10000::nat)"
  let ?sreq = "summary_request cfg st query repository limit branch"
  let ?st1 = "log_request ?sreq st"
  let ?ireq = "index_request cfg (toFullUrl repository)"
  let ?st2 = "snd (protectedAxios cfg net ?ireq ?st1)"
  have t1: "traced ?P ?Q st ?st1"
    by (rule traced_log_request) simp
  have t2: "traced ?P ?Q st ?st2"
    by (rule traced_trans [OF t1]) (rule traced_protectedAxios, simp)
  have d1: "traced ?P ?Q st (delay 10000 ?st1)"
    by (rule traced_trans [OF t1]) (rule traced_delay, simp)
  have d2: "traced ?P ?Q st (delay 10000 ?st2)"
    by (rule traced_trans [OF t2]) (rule traced_delay, simp)
  show ?case
  proof (cases "attempt < 6")
    case False
    then show ?thesis
      by (subst summary_loop.simps) (simp add: traced_refl)
  next
    case True
    show ?thesis
    proof (cases "net (length (requests st)) ?sreq")
      case (Inr d)
      with True show ?thesis
        by (subst summary_loop.simps) (simp add: axios_def t1)
    next
      case (Inl error)
      show ?thesis
      proof (cases "notFound_of error")
        case thrown: (Inl thrown)
        with True Inl show ?thesis
          by (subst summary_loop.simps) (simp add: axios_def t1)
      next
        case nf: (Inr notFound)
        show ?thesis
        proof (cases "notFound \<or> status_404_or_500 error")
          case other: False
          with True Inl nf show ?thesis
            by (subst summary_loop.simps) (simp add: axios_def t1)
        next
          case recover: True
          show ?thesis
          proof (cases indexed)
            case again: True
            show ?thesis
            proof (cases "attempt < 5")
              case last: False
              with True Inl nf recover again show ?thesis
                by (subst summary_loop.simps) (simp add: axios_def t1)
            next
              case more: True
              have ih: "traced ?P ?Q (delay 10000 ?st1)
                  (snd (summary_loop cfg net query repository limit branch (attempt + 1) indexed
                          (Some error) (delay 10000 ?st1)))"
                using "1.IH"(2) [of "Inl error" ?st1 error notFound]
                  True Inl nf recover again more
                by (simp add: axios_def)
              have "traced ?P ?Q st
                  (snd (summary_loop cfg net query repository limit branch (attempt + 1) indexed
                          (Some error) (delay 10000 ?st1)))"
                by (rule traced_trans [OF d1 ih])
              with True Inl nf recover again more show ?thesis
                by (subst summary_loop.simps) (simp add: axios_def)
            qed
          next
            case first: False
            obtain y st2 where pa: "protectedAxios cfg net ?ireq ?st1 = (y, st2)"
              by (cases "protectedAxios cfg net ?ireq ?st1")
            then have t2': "traced ?P ?Q st st2"
              using t2 by simp
            have d2': "traced ?P ?Q st (delay 10000 st2)"
              by (rule traced_trans [OF t2']) (rule traced_delay, simp)
            show ?thesis
            proof (cases y)
              case ythrown: (Inl e)
              with True Inl nf recover first pa t2' show ?thesis
                by (subst summary_loop.simps) (simp add: axios_def)
            next
              case yres: (Inr indexResult)
              show ?thesis
              proof (cases "index_failed indexResult")
                case True
                with \<open>attempt < 6\<close> Inl nf recover first pa t2' yres show ?thesis
                  by (subst summary_loop.simps) (simp add: axios_def)
              next
                case ok: False
                have ih: "traced ?P ?Q (delay 10000 st2)
                    (snd (summary_loop cfg net query repository limit branch (attempt + 1) True
                            (Some error) (delay 10000 st2)))"
                  using "1.IH"(1) [of "Inl error" ?st1 error notFound y st2 indexResult]
                    True Inl nf recover first pa yres ok
                  by (simp add: axios_def)
                have "traced ?P ?Q st
                    (snd (summary_loop cfg net query repository limit branch (attempt + 1) True
                            (Some error) (delay 10000 st2)))"
                  by (rule traced_trans [OF d2' ih])
                with True Inl nf recover first pa yres ok show ?thesis
                  by (subst summary_loop.simps) (simp add: axios_def)
              qed
            qed
          qed
        qed
      qed
    qed
  qed
qed

section \<open>Request timeouts\<close>

lemma req_timeout_replit_request [simp]:
  "req_timeout (replit_request cfg m path body) = Some 30000"
  by (simp add: replit_request_def)

lemma req_timeout_vector_search_request [simp]:
  "req_timeout (vector_search_request cfg query repository limit) = Some 30000"
  by (simp add: vector_search_request_def)

lemma snd_search_attempt:
  "snd (search_attempt cfg net query repository limit st)
     = log_request (vector_search_request cfg query repository limit) st"
  by (simp add: search_attempt_def axios_def split: sum.splits)

lemma snd_indexRepository_replit:
  "snd (indexRepository_replit cfg net u branch st)
     = log_request (replit_request cfg ''POST'' ''/index-repository''
         (Some (JObj [(''repoUrl'', JStr u),
                      (''branch'', JStr (case branch of None \<Rightarrow> ''main'' | Some b \<Rightarrow> b))]))) st"
  by (simp add: indexRepository_replit_def axios_def split: sum.splits)

lemma snd_processChat_replit:
  "snd (processChat_replit cfg net now message repository st)
     = (case net (length (requests st)) (replit_request cfg ''GET'' ''/health'' None) of
          Inl healthError \<Rightarrow> log_request (replit_request cfg ''GET'' ''/health'' None) st
        | Inr health \<Rightarrow>
            log_request (vector_search_request cfg message repository 5)
              (log_request (replit_request cfg ''GET'' ''/health'' None) st))"
  by (simp add: processChat_replit_def axios_def split: sum.splits option.splits)

lemma traced_vectorSearch_replit:
  "traced (\<lambda>r. req_timeout r = Some 30000) Q st
     (snd (vectorSearch_replit cfg net query repository limit repoUrl branch st))"
  by (simp add: vectorSearch_replit_def Let_def split_beta snd_search_attempt
      snd_indexRepository_replit traced_iff split: option.splits)

lemma traced_chat_replit:
  "traced (\<lambda>r. req_timeout r = Some 30000) Q st
     (snd (chat_replit cfg net now message repository st))"
  by (simp add: chat_replit_def split_beta snd_processChat_replit traced_iff split: sum.splits)

lemma traced_vectorSearch:
  "traced (\<lambda>r. req_timeout r = None) Q st (snd (vectorSearch cfg net query repository limit st))"
  by (simp add: vectorSearch_def traced_search_then_index traced_refl)

lemma traced_chat:
  "traced (\<lambda>r. req_timeout r = None) Q st (snd (chat cfg net message repository st))"
proof -
  let ?P = "\<lambda>r. req_timeout r = None"
  have s: "traced ?P Q st
      (snd (search_then_index cfg net (search_request cfg message repository 5) repository st))"
    by (rule traced_search_then_index)
  have i: "traced ?P Q st (snd (protectedAxios cfg net (index_request cfg u) st))" for u
    by (rule traced_protectedAxios) simp
  show ?thesis
  proof (cases "startsWith (trim message) ''/set-token ''")
    case True
    then show ?thesis
      by (simp add: chat_def Let_def setToken_def traced_refl)
  next
    case no_token_command: False
    show ?thesis
    proof (cases "startsWith (trim message) ''/index-repo ''")
      case True
      have "snd (chat cfg net message repository st)
              = (if trim (drop 11 (trim message)) = [] then st
                 else snd (protectedAxios cfg net
                             (index_request cfg (toFullUrl (trim (drop 11 (trim message))))) st))"
        using no_token_command True
        by (simp add: chat_def Let_def split: prod.splits sum.splits)
      then show ?thesis
        using i by (simp add: traced_refl)
    next
      case False
      have "snd (chat cfg net message repository st)
              = (if \<not> hasToken st then st
                 else snd (search_then_index cfg net (search_request cfg message repository 5)
                             repository st))"
        using no_token_command False
        by (simp add: chat_def split: prod.splits sum.splits)
      then show ?thesis
        using s by (simp add: traced_refl)
    qed
  qed
qed

text \<open>
  C8, as the code has it. Every request that the tool handlers of the Replit variant
  send (\<open>vectorSearch\<close>, \<open>indexRepository\<close>, \<open>chat\<close>) carries the 30000 millisecond
  timeout of that file's \<open>axiosConfig\<close>, and those handlers never sleep. The handlers
  of integration.js send their requests with no timeout option; the single-shot ones
  never sleep, and every delay of the polling one is the fixed 10000 milliseconds.
\<close>

theorem request_timeouts:
  "traced (\<lambda>r. req_timeout r = Some 30000) (\<lambda>d. False) st
     (snd (vectorSearch_replit cfg net query repository limit repoUrl branch st))
   \<and> traced (\<lambda>r. req_timeout r = Some 30000) (\<lambda>d. False) st
       (snd (indexRepository_replit cfg net u branch st))
   \<and> traced (\<lambda>r. req_timeout r = Some 30000) (\<lambda>d. False) st
       (snd (chat_replit cfg net now message repository st))
   \<and> traced (\<lambda>r. req_timeout r = None) (\<lambda>d. False) st
       (snd (vectorSearch cfg net query repository limit st))
   \<and> traced (\<lambda>r. req_timeout r = None) (\<lambda>d. False) st
       (snd (chat cfg net message repository st))
   \<and> traced (\<lambda>r. req_timeout r = None) (\<lambda>d. d = 10000) st
       (snd (vectorSearchWithSummary cfg net query repository limit branch st))"
  by (simp add: traced_vectorSearch_replit traced_chat_replit traced_vectorSearch traced_chat
      snd_indexRepository_replit traced_log_request vectorSearchWithSummary_def traced_refl
      traced_summary_loop)

theorem request_timeouts_witness:
  "list_all (\<lambda>r. req_timeout r = Some 30000)
     (sent_since signed_out
        (snd (vectorSearch_replit example_cfg (backend_returns (JArr [])) ''auth flow''
                ''octo/widgets'' None (Some ''https://github.com/octo/widgets'') None signed_out)))
   \<and> list_all (\<lambda>r. req_timeout r = None)
       (sent_since signed_in
          (snd (vectorSearchWithSummary example_cfg (unindexed_backend index_accepted)
                  ''auth flow'' ''octo/widgets'' None None signed_in)))
   \<and> list_all (\<lambda>d. d = 10000)
       (slept_since signed_in
          (snd (vectorSearchWithSummary example_cfg (unindexed_backend index_accepted)
                  ''auth flow'' ''octo/widgets'' None None signed_in)))"
  using request_timeouts [where st = signed_out and cfg = example_cfg
      and net = "backend_returns (JArr [])" and query = "''auth flow''"
      and repository = "''octo/widgets''" and limit = None
      and repoUrl = "Some ''https://github.com/octo/widgets''" and branch = None]
    request_timeouts [where st = signed_in and cfg = example_cfg
      and net = "unindexed_backend index_accepted" and query = "''auth flow''"
      and repository = "''octo/widgets''" and limit = None and branch = None]
  by (simp add: traced_def)

text \<open>
  The property as the specification states it fails in integration.js: the search that its
  \<open>vectorSearch\<close> sends, and the one that \<open>vectorSearchWithSummary\<close> sends, carry no
  timeout.
\<close>

theorem request_timeout_counterexample:
  "map req_timeout
     (requests (snd (vectorSearch example_cfg (backend_returns no_hits) ''auth flow''
                       ''octo/widgets'' None signed_in))) = [None]
   \<and> map req_timeout
     (requests (snd (vectorSearchWithSummary example_cfg (backend_returns no_hits) ''auth flow''
                       ''octo/widgets'' None None signed_in))) = [None]"
  by code_simp

section \<open>Classification of search outcomes\<close>

lemma not_found_nonempty:
  "includes_js (toLowerCase m) ''not found'' \<or> includes_js (toLowerCase m) ''not indexed''
   \<Longrightarrow> m \<noteq> []"
  by (auto simp: toLowerCase_def)

lemma get_prop_SomeD: "get_prop v k = Some x \<Longrightarrow> \<exists>kvs. v = JObj kvs"
  by (cases v) simp_all

lemma classified_by_body_message:
  assumes "err_response error = Some (status, body)"
    and "get_prop body ''message'' = Some (JStr m)"
    and "includes_js (toLowerCase m) ''not found'' \<or> includes_js (toLowerCase m) ''not indexed''"
  shows "classified_NotIndexed error"
proof -
  from assms(2) obtain kvs where b: "body = JObj kvs" by (auto dest: get_prop_SomeD)
  from assms(3) have m: "m \<noteq> []" by (rule not_found_nonempty)
  have r: "responseData_of error = body"
    using assms(1) b by (simp add: responseData_of_def)
  have "notFound_of error = Inr True"
    using assms r b m by (auto simp: notFound_of_def)
  then show ?thesis by (simp add: classified_NotIndexed_def)
qed

lemma classified_by_error_message:
  assumes "\<not> (truthy (responseData_of error) \<and> is_object (responseData_of error))"
    and "includes_js (toLowerCase (err_message error)) ''not found''"
  shows "classified_NotIndexed error"
  using assms by (auto simp: classified_NotIndexed_def notFound_of_def)

lemma notFound_of_evaluates:
  assumes "err_response error = Some (status, body)"
    and "message_lacks (get_prop body ''message'') []"
  shows "\<exists>notFound. notFound_of error = Inr notFound"
proof (cases "truthy body \<and> is_object body")
  case True
  then have "responseData_of error = body"
    using assms(1) by (simp add: responseData_of_def)
  with True assms(2) show ?thesis
    by (auto simp: notFound_of_def message_lacks_def split: option.splits json.splits)
next
  case False
  have "responseData_of error = body \<or> responseData_of error = JNull"
    using assms(1) by (simp add: responseData_of_def)
  with False show ?thesis
    by (auto simp: notFound_of_def)
qed

lemma classified_by_status:
  assumes "err_response error = Some (status, body)" and "status = 404 \<or> status = 500"
    and "message_lacks (get_prop body ''message'') []"
  shows "classified_NotIndexed error"
proof -
  from notFound_of_evaluates [OF assms(1,3)] obtain notFound where
    "notFound_of error = Inr notFound" ..
  with assms(1,2) show ?thesis
    by (auto simp: classified_NotIndexed_def status_404_or_500_def)
qed

lemma requests_protectedAxios:
  "hasToken st \<Longrightarrow>
   requests (snd (protectedAxios cfg net options st)) = requests st @ [with_auth st options]"
  by (auto simp: protectedAxios_def axios_def clearToken_def split: sum.splits)

lemma polling_enters_indexing:
  assumes "attempt < 6" and "hasToken st"
    and "net (length (requests st)) (summary_request cfg st query repository limit branch)
           = Inl error"
    and "classified_NotIndexed error"
  shows "prefix (requests st @ [summary_request cfg st query repository limit branch,
                               with_auth st (index_request cfg (toFullUrl repository))])
           (requests (snd (summary_loop cfg net query repository limit branch attempt False
                             lastError st)))"
proof -
  let ?sreq = "summary_request cfg st query repository limit branch"
  let ?ireq = "index_request cfg (toFullUrl repository)"
  let ?st1 = "log_request ?sreq st"
  from assms(4) obtain notFound where
    nf: "notFound_of error = Inr notFound" "notFound \<or> status_404_or_500 error"
    by (auto dest: classified_NotIndexedD)
  obtain y st2 where pa: "protectedAxios cfg net ?ireq ?st1 = (y, st2)"
    by (cases "protectedAxios cfg net ?ireq ?st1")
  have r2: "requests st2 = requests st @ [?sreq, with_auth st ?ireq]"
    using requests_protectedAxios [of ?st1 cfg net ?ireq] assms(2) pa by simp
  have loop: "prefix (requests st2)
      (requests (snd (summary_loop cfg net query repository limit branch (attempt + 1) True
                        (Some error) (delay 10000 st2))))"
    using traced_summary_loop [of "delay 10000 st2" cfg net query repository limit branch
        "attempt + 1" True "Some error"]
    by (simp add: traced_def)
  have "snd (summary_loop cfg net query repository limit branch attempt False lastError st)
          = (case y of
               Inl thrown \<Rightarrow> st2
             | Inr indexResult \<Rightarrow>
                 if index_failed indexResult then st2
                 else snd (summary_loop cfg net query repository limit branch (attempt + 1) True
                             (Some error) (delay 10000 st2)))"
    using assms(1,3) nf pa
    by (subst summary_loop.simps) (simp add: axios_def split: sum.splits)
  then show ?thesis
    using loop r2 by (simp split: sum.splits)
qed

lemma payload_message_not_found:
  assumes "get_prop result ''message'' = Some (JStr m)"
    and "includes_js (toLowerCase m) ''not found''"
  shows "not_found_or_error result = Inr True"
proof -
  from assms(1) obtain kvs where "result = JObj kvs" by (auto dest: get_prop_SomeD)
  moreover from assms(2) have "m \<noteq> []" by (auto simp: toLowerCase_def)
  ultimately show ?thesis
    using assms by (simp add: not_found_or_error_def)
qed

lemma payload_status_code_500:
  assumes "get_prop result ''status_code'' = Some (JNum 500)"
  shows "not_found_or_error result = Inr True"
proof -
  from assms obtain kvs where "result = JObj kvs" by (auto dest: get_prop_SomeD)
  then show ?thesis
    using assms by (simp add: not_found_or_error_def)
qed

lemma search_then_index_enters_indexing:
  assumes "hasToken st"
    and "net (length (requests st)) (with_auth st search) = Inr result"
    and "not_found_or_error result = Inr True"
  shows "requests (snd (search_then_index cfg net search repository st))
           = requests st @ [with_auth st search,
                            with_auth st (index_request cfg (toFullUrl repository))]"
proof -
  let ?st1 = "log_request (with_auth st search) st"
  let ?ireq = "index_request cfg (toFullUrl repository)"
  have "snd (search_then_index cfg net search repository st)
          = snd (protectedAxios cfg net ?ireq ?st1)"
    using assms
    by (simp add: search_then_index_def protectedAxios_success split: prod.splits sum.splits)
  then show ?thesis
    using requests_protectedAxios [of ?st1 cfg net ?ireq] assms(1) by simp
qed


lemma requests_chat_search:
  assumes "\<not> startsWith (trim message) ''/set-token ''"
    and "\<not> startsWith (trim message) ''/index-repo ''" and "hasToken st"
  shows "requests (snd (chat cfg net message repository st))
           = requests (snd (search_then_index cfg net (search_request cfg message repository 5)
                              repository st))"
  using assms by (simp add: chat_def split: prod.splits sum.splits)

text \<open>
  C3, as the code has it. Classification is stable within each configuration. In the
  polling configuration a search failure is classified NotIndexed when the message of
  its response body case-insensitively contains ``not found'' or ``not indexed''; or,
  the response having no object for a body, when the error's own message contains
  ``not found''; or when its transport status is 404 or 500 and the message of its body
  is absent, falsy or a string (on a truthy message that is not a string the \<open>catch\<close>
  block throws before it looks at the status). The status plays no other part, so all
  this holds for a 403 as well, and the first failure so classified sends the indexing
  request right after the search. In the single-shot configuration a payload whose
  message case-insensitively contains ``not found'', or whose \<open>status_code\<close> is 500,
  makes the handler's condition true, and a payload that does is followed by the indexing
  call (\<open>vectorSearch\<close>, and \<open>chat\<close> on a message that is not a command); a response
  with status 403 is turned by the protected executor into its auth-failure result
  whatever its body.
\<close>

theorem classification_by_configuration:
  "(err_response error = Some (status, body) \<and> get_prop body ''message'' = Some (JStr m)
      \<and> (includes_js (toLowerCase m) ''not found'' \<or> includes_js (toLowerCase m) ''not indexed'')
      \<longrightarrow> classified_NotIndexed error)
   \<and> (\<not> (truthy (responseData_of error) \<and> is_object (responseData_of error))
        \<and> includes_js (toLowerCase (err_message error)) ''not found''
      \<longrightarrow> classified_NotIndexed error)
   \<and> (err_response error = Some (status, body) \<and> (status = 404 \<or> status = 500)
        \<and> message_lacks (get_prop body ''message'') []
      \<longrightarrow> classified_NotIndexed error)
   \<and> (classified_NotIndexed error \<and> hasToken st
        \<and> net (length (requests st))
              (summary_request cfg st query repository
                 (case limit of None \<Rightarrow> 5 | Some l \<Rightarrow> l)
                 (case branch of None \<Rightarrow> ''main'' | Some b \<Rightarrow> b)) = Inl error
      \<longrightarrow> prefix (requests st
                   @ [summary_request cfg st query repository
                        (case limit of None \<Rightarrow> 5 | Some l \<Rightarrow> l)
                        (case branch of None \<Rightarrow> ''main'' | Some b \<Rightarrow> b),
                      with_auth st (index_request cfg (toFullUrl repository))])
            (requests (snd (vectorSearchWithSummary cfg net query repository limit branch st))))
   \<and> (get_prop result ''message'' = Some (JStr m) \<and> includes_js (toLowerCase m) ''not found''
      \<longrightarrow> not_found_or_error result = Inr True)
   \<and> (get_prop result ''status_code'' = Some (JNum 500)
      \<longrightarrow> not_found_or_error result = Inr True)
   \<and> (not_found_or_error result = Inr True \<and> hasToken st \<longrightarrow>
        (net (length (requests st))
             (with_auth st (search_request cfg query repository
                              (case limit of None \<Rightarrow> 5 | Some l \<Rightarrow> l))) = Inr result
         \<longrightarrow> requests (snd (vectorSearch cfg net query repository limit st))
               = requests st
                 @ [with_auth st (search_request cfg query repository
                                    (case limit of None \<Rightarrow> 5 | Some l \<Rightarrow> l)),
                    with_auth st (index_request cfg (toFullUrl repository))])
        \<and> (net (length (requests st)) (with_auth st (search_request cfg message repository 5))
              = Inr result
            \<and> \<not> startsWith (trim message) ''/set-token ''
            \<and> \<not> startsWith (trim message) ''/index-repo ''
         \<longrightarrow> requests (snd (chat cfg net message repository st))
               = requests st
                 @ [with_auth st (search_request cfg message repository 5),
                    with_auth st (index_request cfg (toFullUrl repository))]))
   \<and> (hasToken st \<and> err_response error = Some (403, body)
        \<and> net (length (requests st)) (with_auth st options) = Inl error
      \<longrightarrow> fst (protectedAxios cfg net options st)
            = Inr (error_object (token_expired_message cfg)))"
proof -
  have p: "prefix (requests st
                   @ [summary_request cfg st query repository
                        (case limit of None \<Rightarrow> 5 | Some l \<Rightarrow> l)
                        (case branch of None \<Rightarrow> ''main'' | Some b \<Rightarrow> b),
                      with_auth st (index_request cfg (toFullUrl repository))])
            (requests (snd (vectorSearchWithSummary cfg net query repository limit branch st)))"
    if "classified_NotIndexed error" "hasToken st"
      "net (length (requests st))
              (summary_request cfg st query repository
                 (case limit of None \<Rightarrow> 5 | Some l \<Rightarrow> l)
                 (case branch of None \<Rightarrow> ''main'' | Some b \<Rightarrow> b)) = Inl error"
  proof -
    have "(0::nat) < 6" by simp
    from polling_enters_indexing [where net = net and st = st and cfg = cfg
        and error = error and lastError = None, OF this that(2) that(3) that(1)]
    show ?thesis using that(2) by (simp add: vectorSearchWithSummary_def)
  qed
  have a: "fst (protectedAxios cfg net options st)
            = Inr (error_object (token_expired_message cfg))"
    if "hasToken st" "err_response error = Some (403, body)"
      "net (length (requests st)) (with_auth st options) = Inl error"
  proof -
    from that(2) have "auth_status error" by (simp add: auth_status_def)
    with that(1,3) show ?thesis by (simp add: protectedAxios_auth_failure)
  qed
  show ?thesis
    using p a
    by (auto simp: vectorSearch_def requests_chat_search search_then_index_enters_indexing
        intro: classified_by_body_message classified_by_error_message classified_by_status
          payload_message_not_found payload_status_code_500)
qed

theorem classification_by_configuration_witness:
  "classified_NotIndexed (http_error 403 not_found_body)
   \<and> classified_NotIndexed \<lparr>err_message = ''Repository not found'', err_response = None\<rparr>
   \<and> classified_NotIndexed (http_error 500 JNull)
   \<and> prefix (requests signed_in
               @ [summary_request example_cfg signed_in ''auth flow'' ''octo/widgets'' 5 ''main'',
                  with_auth signed_in (index_request example_cfg (toFullUrl ''octo/widgets''))])
        (requests (snd (vectorSearchWithSummary example_cfg (backend_rejects 403 not_found_body)
                          ''auth flow'' ''octo/widgets'' None None signed_in)))
   \<and> not_found_or_error not_found_body = Inr True
   \<and> requests (snd (vectorSearch example_cfg (backend_returns not_found_body) ''auth flow''
                       ''octo/widgets'' None signed_in))
       = requests signed_in
         @ [with_auth signed_in (search_request example_cfg ''auth flow'' ''octo/widgets'' 5),
            with_auth signed_in (index_request example_cfg (toFullUrl ''octo/widgets''))]
   \<and> fst (protectedAxios example_cfg (backend_rejects 403 not_found_body) example_options
            signed_in)
       = Inr (error_object (token_expired_message example_cfg))"
proof -
  let ?e = "http_error 403 not_found_body"
  let ?m = "\<lparr>err_message = ''Repository not found'', err_response = None\<rparr>"
  have b1: "err_response ?e = Some (403, not_found_body)" by simp
  have b2: "get_prop not_found_body ''message'' = Some (JStr ''Repository not found'')"
    by (simp add: not_found_body_def)
  have b3: "includes_js (toLowerCase ''Repository not found'') ''not found''"
    by code_simp
  have m1: "\<not> (truthy (responseData_of ?m) \<and> is_object (responseData_of ?m))"
    by (simp add: responseData_of_def)
  have m2: "includes_js (toLowerCase (err_message ?m)) ''not found''"
    by code_simp
  have s1: "err_response (http_error 500 JNull) = Some (500, JNull)" by simp
  have s2: "message_lacks (get_prop JNull ''message'') []"
    by code_simp
  have n: "backend_rejects 403 not_found_body n r = Inl ?e" for n r
    by (simp add: backend_rejects_def)
  have r: "backend_returns not_found_body n r = Inr not_found_body" for n r
    by (simp add: backend_returns_def)
  note A = classification_by_configuration [where error = ?e and status = 403
      and body = not_found_body and m = "''Repository not found''" and st = signed_in
      and cfg = example_cfg and net = "backend_rejects 403 not_found_body"
      and query = "''auth flow''" and repository = "''octo/widgets''" and limit = None
      and branch = None and result = not_found_body and options = example_options]
  note B = classification_by_configuration [where error = ?m]
  note C = classification_by_configuration [where error = "http_error 500 JNull"
      and status = 500 and body = JNull]
  note D = classification_by_configuration [where result = not_found_body
      and m = "''Repository not found''" and st = signed_in and cfg = example_cfg
      and net = "backend_returns not_found_body" and query = "''auth flow''"
      and repository = "''octo/widgets''" and limit = None]
  have c1: "classified_NotIndexed ?e"
    using A b1 b2 b3 by blast
  have c2: "classified_NotIndexed ?m"
    using B m1 m2 by blast
  have c3: "classified_NotIndexed (http_error 500 JNull)"
    using C s1 s2 by blast
  have c4: "prefix (requests signed_in
               @ [summary_request example_cfg signed_in ''auth flow'' ''octo/widgets'' 5 ''main'',
                  with_auth signed_in (index_request example_cfg (toFullUrl ''octo/widgets''))])
        (requests (snd (vectorSearchWithSummary example_cfg (backend_rejects 403 not_found_body)
                          ''auth flow'' ''octo/widgets'' None None signed_in)))"
    using A c1 n by simp
  have c5: "not_found_or_error not_found_body = Inr True"
    using A b2 b3 by blast
  have c6: "requests (snd (vectorSearch example_cfg (backend_returns not_found_body) ''auth flow''
                       ''octo/widgets'' None signed_in))
       = requests signed_in
         @ [with_auth signed_in (search_request example_cfg ''auth flow'' ''octo/widgets'' 5),
            with_auth signed_in (index_request example_cfg (toFullUrl ''octo/widgets''))]"
    using D c5 r by simp
  have c7: "fst (protectedAxios example_cfg (backend_rejects 403 not_found_body) example_options
            signed_in)
       = Inr (error_object (token_expired_message example_cfg))"
    using A b1 n by simp
  show ?thesis
    by (rule conjI [OF c1 conjI [OF c2 conjI [OF c3 conjI [OF c4 conjI [OF c5 conjI [OF c6 c7]]]]]])
qed

text \<open>
  The property as the specification states it fails in both configurations. In the polling one a 403
  whose body says ``Repository not found'' is followed by the indexing request. In the
  single-shot one a response with transport status 500 is rethrown by the executor and
  leaves \<open>vectorSearch\<close> as an error: the search is the only request, no indexing
  follows.
\<close>

theorem classification_counterexample:
  "map req_url
     (requests (snd (vectorSearchWithSummary example_cfg (backend_rejects 403 not_found_body)
                       ''auth flow'' ''octo/widgets'' None None signed_in)))
     = [''http://localhost:8081/search/summary'', ''http://localhost:8081/index'']
   \<and> fst (vectorSearch example_cfg (backend_rejects 500 JNull) ''auth flow'' ''octo/widgets''
            None signed_in)
     = Inl (http_error 500 JNull)
   \<and> map req_url
       (requests (snd (vectorSearch example_cfg (backend_rejects 500 JNull) ''auth flow''
                         ''octo/widgets'' None signed_in)))
     = [''http://localhost:8081/search'']"
  by code_simp

end
